theory Spec2Isabelle
  imports Main
begin

section \<open>Data model\<close>

text \<open>
  A Go \<open>error\<close> value: the reason that \<open>apierrors.IsNotFound\<close> and its siblings
  inspect, and the text that \<open>err.Error()\<close> returns.
\<close>

datatype StatusReason =
    StatusReasonNotFound
  | StatusReasonServiceUnavailable
  | StatusReasonTimeout
  | StatusReasonForbidden
  | StatusReasonUnknown

datatype error = NewError (errReason: StatusReason) (Error: string)

definition IsNotFound :: "error \<Rightarrow> bool" where
  "IsNotFound err = (errReason err = StatusReasonNotFound)"

text \<open>\<open>types.NamespacedName\<close>.\<close>

record NamespacedName =
  Namespace :: string
  Name :: string

text \<open>\<open>commonv1.SecretRef\<close>, the value of \<open>es.Spec.Transport.TLS.Certificate\<close>.\<close>

record SecretRef =
  SecretName :: string

text \<open>
  \<open>esv1.Elasticsearch\<close>, with the fields that the transport CA reconciliation reads:
  the namespace and name of its metadata and \<open>Spec.Transport.TLS.Certificate\<close>.
\<close>

record Elasticsearch =
  ObjectMeta :: NamespacedName
  TransportCertificate :: SecretRef

text \<open>\<open>corev1.Secret\<close>: its metadata and its data, key by key.\<close>

record Secret =
  SecretMeta :: NamespacedName
  Data :: "(string \<times> string) list"

text \<open>
  \<open>certificates.CA\<close>: a certificate and, where the secret holds one, its private key.
  A \<open>*certificates.CA\<close> is a \<open>CA option\<close>, \<open>nil\<close> being \<open>None\<close>.
\<close>

record CA =
  Cert :: string
  PrivateKey :: "string option"

datatype CAType = TransportCAType | HTTPCAType

record RotationParams =
  Validity :: nat
  RotateBefore :: nat

datatype Context = Background | WithDeadline nat

datatype EventType = EventTypeNormal | EventTypeWarning

datatype EventReason = EventReasonUnexpected | EventReasonValidation

text \<open>
  One call of \<open>Recorder().Eventf(object, eventtype, reason, messageFmt)\<close>: the object
  the event is about and the three arguments, as they are passed.
\<close>

record Event =
  involvedObject :: NamespacedName
  eventtype :: EventType
  reason :: EventReason
  messageFmt :: string

text \<open>One call of \<open>log.Info(msg, keysAndValues...)\<close>.\<close>

record LogEntry =
  msg :: string
  keysAndValues :: "(string \<times> string) list"

subsection \<open>The collaborators' state\<close>

text \<open>
  Modelled from the spec: the Dynamic Watch Service (section 6), whose code is not under
  src/. A registration is a (key, owner, target) triple; \<open>Register\<close> and \<open>Unregister\<close>
  answer OK or an error. The two fault fields say whether the next registration or
  removal fails, and with which error.
\<close>

record Watches =
  handlers :: "string \<rightharpoonup> (NamespacedName \<times> NamespacedName)"
  registerFault :: "error option"
  unregisterFault :: "error option"

text \<open>
  Modelled from the spec: the Object/Secret Store (section 6), whose code is not under
  src/: \<open>Get\<close> answers a payload, NotFound or an error, \<open>Delete\<close> answers OK, NotFound
  or an error, \<open>Put\<close> answers OK or an error. The three fault fields say whether the
  store fails a read, a delete or a write for a reason of its own (unavailable, deadline
  exceeded, forbidden), and with which error.
\<close>

record Client =
  secrets :: "NamespacedName \<rightharpoonup> Secret"
  getFault :: "error option"
  deleteFault :: "error option"
  putFault :: "error option"

text \<open>
  The calls a pass makes to its collaborators, in program order. The journal of these
  calls is the model's own record of what a pass did: the Go code keeps no such value.
\<close>

datatype Call =
    CallReconcileCustomCertWatch string
  | CallGet NamespacedName
  | CallParseCustomCASecret
  | CallDelete NamespacedName
  | CallReconcileCAForOwner
  | CallEventf
  | CallLogInfo

text \<open>
  What \<open>driver.Interface\<close> gives access to (\<open>DynamicWatches()\<close>, \<open>K8sClient()\<close>,
  \<open>Recorder()\<close>), the package logger, and the journal of calls.
\<close>

record World =
  DynamicWatches :: Watches
  K8sClient :: Client
  Recorder :: "Event list"
  Logger :: "LogEntry list"
  journal :: "Call list"

text \<open>
  The helpers of the \<open>certificates\<close> and \<open>esv1\<close> packages that are not under src/ and
  that the spec describes by their contract only; they are parameters of the
  reconciliation: \<open>ESNamer.Suffix\<close>, \<open>ParseCustomCASecret\<close> and \<open>ReconcileCAForOwner\<close>
  (which works on the client it is given).
\<close>

type_synonym Namer = "string \<Rightarrow> string list \<Rightarrow> string"

type_synonym Labels = "(string \<times> string) list"

record Deps =
  ESNamer :: Namer
  ParseCustomCASecret :: "Secret \<Rightarrow> CA option \<times> error option"
  ReconcileCAForOwner ::
    "Context \<Rightarrow> Client \<Rightarrow> Namer \<Rightarrow> Elasticsearch \<Rightarrow> Labels \<Rightarrow> CAType \<Rightarrow> RotationParams
      \<Rightarrow> (CA option \<times> error option) \<times> Client"

section \<open>Collaborators\<close>

text \<open>\<open>k8s.ExtractNamespacedName\<close>: the namespace and the name of the object's metadata.\<close>

definition ExtractNamespacedName :: "Elasticsearch \<Rightarrow> NamespacedName" where
  "ExtractNamespacedName es =
     \<lparr>Namespace = Namespace (ObjectMeta es), Name = Name (ObjectMeta es)\<rparr>"

text \<open>
  Modelled from the spec: the Watch Registrar \<open>EnsureWatch\<close> (section 4.1), whose code
  \<open>certificates.ReconcileCustomCertWatch\<close> is not under src/. With a reference present
  it installs or updates the subscription under the key, the owner being the cluster and
  the target the referenced secret in the cluster's namespace; with the reference absent
  it removes the subscription under the key. Either can fail, and then nothing changes.
\<close>

definition ReconcileCustomCertWatch ::
  "Watches \<Rightarrow> string \<Rightarrow> NamespacedName \<Rightarrow> SecretRef \<Rightarrow> error option \<times> Watches" where
  "ReconcileCustomCertWatch dynamicWatches watchKey owner ref =
     (if SecretName ref \<noteq> [] then
        (case registerFault dynamicWatches of
           Some err \<Rightarrow> (Some err, dynamicWatches)
         | None \<Rightarrow>
             (None, dynamicWatches\<lparr>handlers := (handlers dynamicWatches)
                (watchKey \<mapsto> (owner, \<lparr>Namespace = Namespace owner, Name = SecretName ref\<rparr>))\<rparr>))
      else
        (case unregisterFault dynamicWatches of
           Some err \<Rightarrow> (Some err, dynamicWatches)
         | None \<Rightarrow>
             (None, dynamicWatches\<lparr>handlers := (handlers dynamicWatches)(watchKey := None)\<rparr>)))"

text \<open>
  Modelled from the spec: \<open>Get\<close> of the Object/Secret Store (section 6): the store's own
  failure, or NotFound when no secret has this name, or the secret.
\<close>

definition client_Get :: "Client \<Rightarrow> NamespacedName \<Rightarrow> Secret option \<times> error option" where
  "client_Get c key =
     (case getFault c of
        Some err \<Rightarrow> (None, Some err)
      | None \<Rightarrow>
          (case secrets c key of
             None \<Rightarrow> (None, Some (NewError StatusReasonNotFound
                                    (''secrets '' @ Name key @ '' not found'')))
           | Some s \<Rightarrow> (Some s, None)))"

text \<open>
  Modelled from the spec: \<open>Delete\<close> of the Object/Secret Store (section 6): the store's
  own failure, or NotFound when no secret has this name, or the secret is removed.
\<close>

definition client_Delete :: "Client \<Rightarrow> NamespacedName \<Rightarrow> error option \<times> Client" where
  "client_Delete c key =
     (case deleteFault c of
        Some err \<Rightarrow> (Some err, c)
      | None \<Rightarrow>
          (case secrets c key of
             None \<Rightarrow> (Some (NewError StatusReasonNotFound
                              (''secrets '' @ Name key @ '' not found'')), c)
           | Some s \<Rightarrow> (None, c\<lparr>secrets := (secrets c)(key := None)\<rparr>)))"

text \<open>
  Modelled from the spec: the fetch of the Custom CA Resolver (section 4.2), whose code
  \<open>certificates.GetSecretFromRef\<close> is not under src/. Without a reference it answers
  absent and no error, without asking the store; with one it reads the secret of that
  name in the cluster's namespace, and a missing secret is an error.
\<close>

definition GetSecretFromRef ::
  "Client \<Rightarrow> NamespacedName \<Rightarrow> SecretRef \<Rightarrow> Secret option \<times> error option" where
  "GetSecretFromRef c owner ref =
     (if SecretName ref = [] then (None, None)
      else client_Get c \<lparr>Namespace = Namespace owner, Name = SecretName ref\<rparr>)"

text \<open>
  Modelled from the spec: the deterministic name of the self-signed CA secret (section 6),
  whose code \<open>certificates.CAInternalSecretName\<close> is not under src/: the owner's name
  and a fixed purpose suffix for the kind of CA, put together by the namer.
\<close>

definition CATypeString :: "CAType \<Rightarrow> string" where
  "CATypeString t = (case t of TransportCAType \<Rightarrow> ''transport'' | HTTPCAType \<Rightarrow> ''http'')"

definition CAInternalSecretName :: "Namer \<Rightarrow> string \<Rightarrow> CAType \<Rightarrow> string" where
  "CAInternalSecretName namer ownerName caType =
     namer ownerName [CATypeString caType @ ''-ca-internal'']"

subsection \<open>The calls, as the pass makes them\<close>

text \<open>
  Each call of a pass to a collaborator: what the collaborator answers, and the world
  with the collaborator's state updated and the call entered in the journal.
\<close>

definition journalled :: "Call \<Rightarrow> World \<Rightarrow> World" where
  "journalled c w = w\<lparr>journal := journal w @ [c]\<rparr>"

definition call_ReconcileCustomCertWatch ::
  "World \<Rightarrow> string \<Rightarrow> NamespacedName \<Rightarrow> SecretRef \<Rightarrow> error option \<times> World" where
  "call_ReconcileCustomCertWatch w watchKey owner ref =
     (case ReconcileCustomCertWatch (DynamicWatches w) watchKey owner ref of
        (err, dw) \<Rightarrow>
          (err, journalled (CallReconcileCustomCertWatch watchKey) (w\<lparr>DynamicWatches := dw\<rparr>)))"

definition call_GetSecretFromRef ::
  "World \<Rightarrow> NamespacedName \<Rightarrow> SecretRef \<Rightarrow> (Secret option \<times> error option) \<times> World" where
  "call_GetSecretFromRef w owner ref =
     (GetSecretFromRef (K8sClient w) owner ref,
      if SecretName ref = [] then w
      else journalled (CallGet \<lparr>Namespace = Namespace owner, Name = SecretName ref\<rparr>) w)"

definition call_ParseCustomCASecret ::
  "Deps \<Rightarrow> World \<Rightarrow> Secret \<Rightarrow> (CA option \<times> error option) \<times> World" where
  "call_ParseCustomCASecret D w s =
     (ParseCustomCASecret D s, journalled CallParseCustomCASecret w)"

definition call_Delete :: "World \<Rightarrow> NamespacedName \<Rightarrow> error option \<times> World" where
  "call_Delete w key =
     (case client_Delete (K8sClient w) key of
        (err, c) \<Rightarrow> (err, journalled (CallDelete key) (w\<lparr>K8sClient := c\<rparr>)))"

definition call_ReconcileCAForOwner ::
  "Deps \<Rightarrow> Context \<Rightarrow> World \<Rightarrow> Elasticsearch \<Rightarrow> Labels \<Rightarrow> CAType \<Rightarrow> RotationParams
    \<Rightarrow> (CA option \<times> error option) \<times> World" where
  "call_ReconcileCAForOwner D ctx w es labels caType rotationParams =
     (case ReconcileCAForOwner D ctx (K8sClient w) (ESNamer D) es labels caType rotationParams of
        (r, c) \<Rightarrow> (r, journalled CallReconcileCAForOwner (w\<lparr>K8sClient := c\<rparr>)))"

definition Eventf :: "World \<Rightarrow> Elasticsearch \<Rightarrow> EventType \<Rightarrow> EventReason \<Rightarrow> string \<Rightarrow> World" where
  "Eventf w es et r m =
     journalled CallEventf
       (w\<lparr>Recorder := Recorder w @
             [\<lparr>involvedObject = ExtractNamespacedName es, eventtype = et, reason = r,
               messageFmt = m\<rparr>]\<rparr>)"

definition log_Info :: "World \<Rightarrow> string \<Rightarrow> (string \<times> string) list \<Rightarrow> World" where
  "log_Info w m kvs =
     journalled CallLogInfo (w\<lparr>Logger := Logger w @ [\<lparr>msg = m, keysAndValues = kvs\<rparr>]\<rparr>)"

section \<open>The transport CA reconciliation\<close>

definition CustomTransportCertsWatchKey :: "Namer \<Rightarrow> NamespacedName \<Rightarrow> string" where
  "CustomTransportCertsWatchKey namer es = namer (Name es) [''custom-transport-certs'']"

text \<open>
  \<open>ReconcileOrRetrieveCA\<close>: the result is the pair \<open>(*certificates.CA, error)\<close> that the
  Go function returns, together with the world the pass leaves behind.
\<close>

definition ReconcileOrRetrieveCA ::
  "Deps \<Rightarrow> Context \<Rightarrow> World \<Rightarrow> Elasticsearch \<Rightarrow> Labels \<Rightarrow> CA option \<Rightarrow> RotationParams
    \<Rightarrow> (CA option \<times> error option) \<times> World" where
  "ReconcileOrRetrieveCA D ctx w es labels globalCA rotationParams =
     (let esNSN = ExtractNamespacedName es in
      case call_ReconcileCustomCertWatch w
             (CustomTransportCertsWatchKey (ESNamer D) esNSN) esNSN (TransportCertificate es) of
        (Some err, w1) \<Rightarrow> ((None, Some err), w1)
      | (None, w1) \<Rightarrow>
          (case call_GetSecretFromRef w1 esNSN (TransportCertificate es) of
             ((customCASecret, Some err), w2) \<Rightarrow>
               ((None, Some err), Eventf w2 es EventTypeWarning EventReasonUnexpected (Error err))
           | ((None, None), w2) \<Rightarrow>
               (case globalCA of
                  Some g \<Rightarrow> ((Some g, None), w2)
                | None \<Rightarrow>
                    call_ReconcileCAForOwner D ctx w2 es labels TransportCAType rotationParams)
           | ((Some secret, None), w2) \<Rightarrow>
               (case call_ParseCustomCASecret D w2 secret of
                  ((ca, Some err), w3) \<Rightarrow>
                    ((None, Some err),
                     Eventf w3 es EventTypeWarning EventReasonValidation (Error err))
                | ((ca, None), w3) \<Rightarrow>
                    (case call_Delete w3
                            \<lparr>Namespace = Namespace esNSN,
                             Name = CAInternalSecretName (ESNamer D) (Name esNSN) TransportCAType\<rparr> of
                       (err, w4) \<Rightarrow>
                         ((ca, None),
                          if err \<noteq> None \<and> \<not> IsNotFound (the err) then
                            log_Info w4
                              (''Failed to garbage collect self-signed transport CA secret, '' @
                               ''non-critical, continuing'')
                              [(''namespace'', Namespace esNSN), (''name'', Name esNSN),
                               (''err'', Error (the err))]
                          else w4)))))"

text \<open>
  Shorthands for the arguments of the calls of a pass: the watch key of the cluster, what
  the watch reconciliation and the fetch of the custom CA secret answer in a given world,
  and the key of the self-signed CA secret that the garbage collection deletes.
\<close>

abbreviation watchKeyOf :: "Deps \<Rightarrow> Elasticsearch \<Rightarrow> string" where
  "watchKeyOf D es \<equiv> CustomTransportCertsWatchKey (ESNamer D) (ExtractNamespacedName es)"

abbreviation watchOutcome :: "Deps \<Rightarrow> World \<Rightarrow> Elasticsearch \<Rightarrow> error option \<times> Watches" where
  "watchOutcome D w es \<equiv>
     ReconcileCustomCertWatch (DynamicWatches w) (watchKeyOf D es)
       (ExtractNamespacedName es) (TransportCertificate es)"

abbreviation customCAKeyOf :: "Elasticsearch \<Rightarrow> NamespacedName" where
  "customCAKeyOf es \<equiv>
     \<lparr>Namespace = Namespace (ExtractNamespacedName es),
      Name = SecretName (TransportCertificate es)\<rparr>"

abbreviation fetchOutcome :: "World \<Rightarrow> Elasticsearch \<Rightarrow> Secret option \<times> error option" where
  "fetchOutcome w es \<equiv>
     GetSecretFromRef (K8sClient w) (ExtractNamespacedName es) (TransportCertificate es)"

abbreviation selfSignedKeyOf :: "Deps \<Rightarrow> Elasticsearch \<Rightarrow> NamespacedName" where
  "selfSignedKeyOf D es \<equiv>
     \<lparr>Namespace = Namespace (ExtractNamespacedName es),
      Name = CAInternalSecretName (ESNamer D) (Name (ExtractNamespacedName es)) TransportCAType\<rparr>"

abbreviation warningEvent :: "Elasticsearch \<Rightarrow> EventReason \<Rightarrow> error \<Rightarrow> Event" where
  "warningEvent es r err \<equiv>
     \<lparr>involvedObject = ExtractNamespacedName es, eventtype = EventTypeWarning, reason = r,
      messageFmt = Error err\<rparr>"

text \<open>The calls a pass has added to the journal: those of \<open>w'\<close> after those of \<open>w\<close>.\<close>

definition callsOf :: "World \<Rightarrow> World \<Rightarrow> Call list" where
  "callsOf w w' = drop (length (journal w)) (journal w')"

fun isDeleteCall :: "Call \<Rightarrow> bool" where
  "isDeleteCall (CallDelete key) = True"
| "isDeleteCall c = False"

text \<open>
  Modelled from the spec: the transient or infrastructure errors of the taxonomy (section
  7): the store is unavailable, or the deadline is exceeded.
\<close>

definition IsTransient :: "error \<Rightarrow> bool" where
  "IsTransient err =
     (errReason err = StatusReasonServiceUnavailable \<or> errReason err = StatusReasonTimeout)"

section \<open>Service readiness\<close>

text \<open>\<open>corev1.Service\<close> and \<open>corev1.Endpoints\<close>, with the fields \<open>IsServiceReady\<close> reads.\<close>

record Service =
  ServiceMeta :: NamespacedName

record EndpointSubset =
  Addresses :: "string list"
  NotReadyAddresses :: "string list"

record Endpoints =
  Subsets :: "EndpointSubset list"

text \<open>
  \<open>c.Get(namespacedName, &endpoints)\<close> of \<open>k8s.Client\<close>: given the key and the object
  to fill, the error (\<open>None\<close> is \<open>nil\<close>) and the object as the call leaves it.
\<close>

type_synonym EndpointsGetter = "NamespacedName \<Rightarrow> Endpoints \<Rightarrow> error option \<times> Endpoints"

text \<open>The \<open>range\<close> loop of \<open>IsServiceReady\<close> over the subsets.\<close>

fun rangeSubsets :: "EndpointSubset list \<Rightarrow> bool \<times> error option" where
  "rangeSubsets [] = (False, None)"
| "rangeSubsets (subs # rest) =
     (if length (Addresses subs) > 0 then (True, None) else rangeSubsets rest)"

definition IsServiceReady :: "EndpointsGetter \<Rightarrow> Service \<Rightarrow> bool \<times> error option" where
  "IsServiceReady c service =
     (let endpoints = \<lparr>Subsets = []\<rparr>;
          namespacedName = \<lparr>Namespace = Namespace (ServiceMeta service),
                            Name = Name (ServiceMeta service)\<rparr>
      in case c namespacedName endpoints of
           (Some err, endpoints') \<Rightarrow> (False, Some err)
         | (None, endpoints') \<Rightarrow> rangeSubsets (Subsets endpoints'))"

section \<open>Instances of the helpers, and example clusters\<close>

text \<open>
  Modelled from the spec: the namer (section 6), whose code \<open>esv1.ESNamer\<close> is not
  under src/: a resource name is the owner's name followed by the fixed purpose suffixes,
  each after a dash.
\<close>

definition ESNamer_Suffix :: Namer where
  "ESNamer_Suffix ownerName suffixes = ownerName @ concat (map (\<lambda>s. ''-'' @ s) suffixes)"

text \<open>
  Modelled from the spec: the parser of the Custom CA Resolver (section 4.2), whose code
  \<open>certificates.ParseCustomCASecret\<close> is not under src/: a certificate and an optional
  key. The certificate entry has to be there and not empty; the decoding of the bytes and
  the certificate's dates are left out.
\<close>

definition ParseCustomCASecret_spec :: "Secret \<Rightarrow> CA option \<times> error option" where
  "ParseCustomCASecret_spec s =
     (case map_of (Data s) ''ca.crt'' of
        None \<Rightarrow> (None, Some (NewError StatusReasonUnknown
                 (''can't find ca.crt in secret '' @ Name (SecretMeta s))))
      | Some crt \<Rightarrow>
          if crt = [] then
            (None, Some (NewError StatusReasonUnknown
               (''can't parse ca.crt in secret '' @ Name (SecretMeta s))))
          else (Some \<lparr>Cert = crt, PrivateKey = map_of (Data s) ''ca.key''\<rparr>, None))"

text \<open>
  Modelled from the spec: the Self-Signed CA Provisioner (section 4.3), whose code
  \<open>certificates.ReconcileCAForOwner\<close> is not under src/: it looks for the self-signed
  CA secret of the cluster under its deterministic name and returns the CA it holds; when
  there is none, or it does not parse, it generates a CA and persists it, replacing what
  was there. A failing store fails the call. Generation is a fixed function of the owner,
  and the rotation window, which needs a clock, is left out.
\<close>

definition ReconcileCAForOwner_spec ::
  "Context \<Rightarrow> Client \<Rightarrow> Namer \<Rightarrow> Elasticsearch \<Rightarrow> Labels \<Rightarrow> CAType \<Rightarrow> RotationParams
    \<Rightarrow> (CA option \<times> error option) \<times> Client" where
  "ReconcileCAForOwner_spec ctx c namer es labels caType rotationParams =
     (let key = \<lparr>Namespace = Namespace (ObjectMeta es),
                 Name = CAInternalSecretName namer (Name (ObjectMeta es)) caType\<rparr>;
          fresh = \<lparr>Cert = Name (ObjectMeta es) @ ''-'' @ CATypeString caType @ ''-ca'',
                   PrivateKey = Some (Name (ObjectMeta es) @ ''-'' @ CATypeString caType @ ''-key'')\<rparr>;
          persist =
            (case putFault c of
               Some err \<Rightarrow> ((None, Some err), c)
             | None \<Rightarrow>
                 ((Some fresh, None),
                  c\<lparr>secrets := (secrets c)(key \<mapsto>
                       \<lparr>SecretMeta = key,
                        Data = [(''ca.crt'', Cert fresh), (''ca.key'', the (PrivateKey fresh))]\<rparr>)\<rparr>))
      in case client_Get c key of
           (Some s, err) \<Rightarrow>
             (case ParseCustomCASecret_spec s of
                (Some ca, None) \<Rightarrow> ((Some ca, None), c)
              | _ \<Rightarrow> persist)
         | (None, Some err) \<Rightarrow> if IsNotFound err then persist else ((None, Some err), c)
         | (None, None) \<Rightarrow> persist)"

definition specDeps :: Deps where
  "specDeps =
     \<lparr>ESNamer = ESNamer_Suffix,
      ParseCustomCASecret = ParseCustomCASecret_spec,
      ReconcileCAForOwner = ReconcileCAForOwner_spec\<rparr>"

text \<open>
  Two clusters named \<open>prod\<close>, in the namespaces \<open>team-a\<close> and \<open>team-b\<close>: the first
  references the custom CA secret \<open>custom-ca\<close>, the second references nothing.
\<close>

definition esCustom :: Elasticsearch where
  "esCustom = \<lparr>ObjectMeta = \<lparr>Namespace = ''team-a'', Name = ''prod''\<rparr>,
               TransportCertificate = \<lparr>SecretName = ''custom-ca''\<rparr>\<rparr>"

definition esPlain :: Elasticsearch where
  "esPlain = \<lparr>ObjectMeta = \<lparr>Namespace = ''team-b'', Name = ''prod''\<rparr>,
              TransportCertificate = \<lparr>SecretName = []\<rparr>\<rparr>"

definition customCAKey :: NamespacedName where
  "customCAKey = \<lparr>Namespace = ''team-a'', Name = ''custom-ca''\<rparr>"

definition goodSecret :: Secret where
  "goodSecret = \<lparr>SecretMeta = customCAKey,
                 Data = [(''ca.crt'', ''CERT''), (''ca.key'', ''KEY'')]\<rparr>"

definition corruptSecret :: Secret where
  "corruptSecret = \<lparr>SecretMeta = customCAKey, Data = [(''tls.crt'', ''CERT'')]\<rparr>"

definition sharedCA :: CA where
  "sharedCA = \<lparr>Cert = ''SHARED'', PrivateKey = Some ''SHAREDKEY''\<rparr>"

definition year :: RotationParams where
  "year = \<lparr>Validity = 365, RotateBefore = 73\<rparr>"

definition unavailable :: error where
  "unavailable = NewError StatusReasonServiceUnavailable ''the server is currently unable to handle the request''"

definition forbidden :: error where
  "forbidden = NewError StatusReasonForbidden ''secrets is forbidden''"

definition watchesUp :: Watches where
  "watchesUp = \<lparr>handlers = Map.empty, registerFault = None, unregisterFault = None\<rparr>"

definition watchesDown :: Watches where
  "watchesDown = \<lparr>handlers = Map.empty, registerFault = Some unavailable,
                  unregisterFault = Some unavailable\<rparr>"

definition storeOf :: "(NamespacedName \<rightharpoonup> Secret) \<Rightarrow> Client" where
  "storeOf m = \<lparr>secrets = m, getFault = None, deleteFault = None, putFault = None\<rparr>"

definition worldOf :: "Watches \<Rightarrow> Client \<Rightarrow> World" where
  "worldOf dw c = \<lparr>DynamicWatches = dw, K8sClient = c, Recorder = [], Logger = [], journal = []\<rparr>"

definition selfSignedKey :: NamespacedName where
  "selfSignedKey = \<lparr>Namespace = ''team-a'', Name = ''prod-transport-ca-internal''\<rparr>"

definition oldSelfSigned :: Secret where
  "oldSelfSigned = \<lparr>SecretMeta = selfSignedKey,
                    Data = [(''ca.crt'', ''OLDCERT''), (''ca.key'', ''OLDKEY'')]\<rparr>"

definition worldCustomGood :: World where
  "worldCustomGood =
     worldOf watchesUp (storeOf [customCAKey \<mapsto> goodSecret, selfSignedKey \<mapsto> oldSelfSigned])"

definition worldCustomCorrupt :: World where
  "worldCustomCorrupt =
     worldOf watchesUp (storeOf [customCAKey \<mapsto> corruptSecret, selfSignedKey \<mapsto> oldSelfSigned])"

definition worldEmpty :: World where
  "worldEmpty = worldOf watchesUp (storeOf Map.empty)"

definition worldWatchesDown :: World where
  "worldWatchesDown = worldOf watchesDown (storeOf [customCAKey \<mapsto> goodSecret])"

definition worldStoreDown :: World where
  "worldStoreDown =
     worldOf watchesUp ((storeOf [customCAKey \<mapsto> goodSecret])\<lparr>getFault := Some unavailable\<rparr>)"

definition worldDeleteForbidden :: World where
  "worldDeleteForbidden =
     worldOf watchesUp
       ((storeOf [customCAKey \<mapsto> goodSecret, selfSignedKey \<mapsto> oldSelfSigned])
          \<lparr>deleteFault := Some forbidden\<rparr>)"

definition worldCustomOnly :: World where
  "worldCustomOnly = worldOf watchesUp (storeOf [customCAKey \<mapsto> goodSecret])"

definition worldPutDown :: World where
  "worldPutDown = worldOf watchesUp ((storeOf Map.empty)\<lparr>putFault := Some unavailable\<rparr>)"

text \<open>
  An endpoints getter over a table of \<open>Endpoints\<close> objects: a missing object is a
  NotFound error and leaves the object to fill as it is.
\<close>

definition getterOf :: "(NamespacedName \<rightharpoonup> Endpoints) \<Rightarrow> EndpointsGetter" where
  "getterOf table key obj =
     (case table key of
        None \<Rightarrow> (Some (NewError StatusReasonNotFound (''endpoints '' @ Name key @ '' not found'')),
                 obj)
      | Some e \<Rightarrow> (None, e))"

definition httpService :: Service where
  "httpService = \<lparr>ServiceMeta = \<lparr>Namespace = ''team-a'', Name = ''prod-es-http''\<rparr>\<rparr>"

definition readyEndpoints :: Endpoints where
  "readyEndpoints =
     \<lparr>Subsets = [\<lparr>Addresses = [], NotReadyAddresses = [''10.0.0.7'']\<rparr>,
                 \<lparr>Addresses = [''10.0.0.8''], NotReadyAddresses = []\<rparr>]\<rparr>"

definition unreadyEndpoints :: Endpoints where
  "unreadyEndpoints = \<lparr>Subsets = [\<lparr>Addresses = [], NotReadyAddresses = [''10.0.0.7'']\<rparr>]\<rparr>"

definition worldAllDown :: World where
  "worldAllDown = worldOf watchesDown (storeOf Map.empty)"


section \<open>Properties of the transport CA reconciliation\<close>

subsection \<open>The paths of a pass\<close>

lemmas call_defs = call_ReconcileCustomCertWatch_def call_GetSecretFromRef_def
  call_ParseCustomCASecret_def call_Delete_def call_ReconcileCAForOwner_def Eventf_def log_Info_def
  journalled_def

lemma GetSecretFromRef_absent:
  "GetSecretFromRef c owner ref = (None, None) \<longleftrightarrow> SecretName ref = []"
  by (simp add: GetSecretFromRef_def client_Get_def split: option.splits)

lemma GetSecretFromRef_defined:
  "GetSecretFromRef c owner ref = (s, Some err) \<Longrightarrow> SecretName ref \<noteq> []"
  by (auto simp add: GetSecretFromRef_def client_Get_def split: option.splits if_splits)

lemma GetSecretFromRef_present:
  "GetSecretFromRef c owner ref = (Some s, e) \<Longrightarrow> SecretName ref \<noteq> [] \<and> e = None"
  by (auto simp add: GetSecretFromRef_def client_Get_def split: option.splits if_splits)

lemma pass_watch_failed:
  assumes "watchOutcome D w es = (Some err, dw)"
  shows "ReconcileOrRetrieveCA D ctx w es labels globalCA rotationParams =
           ((None, Some err),
            w\<lparr>DynamicWatches := dw,
              journal := journal w @ [CallReconcileCustomCertWatch (watchKeyOf D es)]\<rparr>)"
  using assms by (simp add: ReconcileOrRetrieveCA_def Let_def call_defs)

lemma pass_fetch_failed:
  assumes "watchOutcome D w es = (None, dw)"
      and "fetchOutcome w es = (s, Some err)"
  shows "ReconcileOrRetrieveCA D ctx w es labels globalCA rotationParams =
           ((None, Some err),
            w\<lparr>DynamicWatches := dw,
              Recorder := Recorder w @ [warningEvent es EventReasonUnexpected err],
              journal := journal w @
                [CallReconcileCustomCertWatch (watchKeyOf D es), CallGet (customCAKeyOf es),
                 CallEventf]\<rparr>)"
  using assms GetSecretFromRef_defined[OF assms(2)]
  by (simp add: ReconcileOrRetrieveCA_def Let_def call_defs split: option.splits)

lemma pass_absent_shared:
  assumes "watchOutcome D w es = (None, dw)"
      and "fetchOutcome w es = (None, None)"
  shows "ReconcileOrRetrieveCA D ctx w es labels (Some g) rotationParams =
           ((Some g, None),
            w\<lparr>DynamicWatches := dw,
              journal := journal w @ [CallReconcileCustomCertWatch (watchKeyOf D es)]\<rparr>)"
  using assms GetSecretFromRef_absent[THEN iffD1, OF assms(2)]
  by (simp add: ReconcileOrRetrieveCA_def Let_def call_defs split: option.splits)

lemma pass_absent_self_signed:
  assumes "watchOutcome D w es = (None, dw)"
      and "fetchOutcome w es = (None, None)"
      and "ReconcileCAForOwner D ctx (K8sClient w) (ESNamer D) es labels TransportCAType
             rotationParams = (r, c)"
  shows "ReconcileOrRetrieveCA D ctx w es labels None rotationParams =
           (r,
            w\<lparr>DynamicWatches := dw, K8sClient := c,
              journal := journal w @
                [CallReconcileCustomCertWatch (watchKeyOf D es), CallReconcileCAForOwner]\<rparr>)"
  using assms GetSecretFromRef_absent[THEN iffD1, OF assms(2)]
  by (simp add: ReconcileOrRetrieveCA_def Let_def call_defs split: option.splits)

lemma pass_parse_failed:
  assumes "watchOutcome D w es = (None, dw)"
      and "fetchOutcome w es = (Some secret, None)"
      and "ParseCustomCASecret D secret = (ca, Some err)"
  shows "ReconcileOrRetrieveCA D ctx w es labels globalCA rotationParams =
           ((None, Some err),
            w\<lparr>DynamicWatches := dw,
              Recorder := Recorder w @ [warningEvent es EventReasonValidation err],
              journal := journal w @
                [CallReconcileCustomCertWatch (watchKeyOf D es), CallGet (customCAKeyOf es),
                 CallParseCustomCASecret, CallEventf]\<rparr>)"
  using assms GetSecretFromRef_present[OF assms(2)]
  by (simp add: ReconcileOrRetrieveCA_def Let_def call_defs split: option.splits)

lemma pass_custom:
  assumes "watchOutcome D w es = (None, dw)"
      and "fetchOutcome w es = (Some secret, None)"
      and "ParseCustomCASecret D secret = (ca, None)"
      and "client_Delete (K8sClient w) (selfSignedKeyOf D es) = (derr, c)"
  shows "ReconcileOrRetrieveCA D ctx w es labels globalCA rotationParams =
           ((ca, None),
            w\<lparr>DynamicWatches := dw, K8sClient := c,
              Logger := Logger w @
                (if derr \<noteq> None \<and> \<not> IsNotFound (the derr) then
                   [\<lparr>msg = ''Failed to garbage collect self-signed transport CA secret, '' @
                            ''non-critical, continuing'',
                     keysAndValues =
                       [(''namespace'', Namespace (ExtractNamespacedName es)),
                        (''name'', Name (ExtractNamespacedName es)),
                        (''err'', Error (the derr))]\<rparr>]
                 else []),
              journal := journal w @
                [CallReconcileCustomCertWatch (watchKeyOf D es), CallGet (customCAKeyOf es),
                 CallParseCustomCASecret, CallDelete (selfSignedKeyOf D es)] @
                (if derr \<noteq> None \<and> \<not> IsNotFound (the derr) then [CallLogInfo] else [])\<rparr>)"
  using assms GetSecretFromRef_present[OF assms(2)]
  by (simp add: ReconcileOrRetrieveCA_def Let_def call_defs split: option.splits)

lemma callsOf_append [simp]: "callsOf w (w'\<lparr>journal := journal w @ cs\<rparr>) = cs"
  by (simp add: callsOf_def)

lemmas example_defs = specDeps_def ESNamer_Suffix_def ParseCustomCASecret_spec_def
  ReconcileCAForOwner_spec_def esCustom_def esPlain_def customCAKey_def goodSecret_def
  corruptSecret_def sharedCA_def year_def unavailable_def forbidden_def watchesUp_def
  watchesDown_def storeOf_def worldOf_def selfSignedKey_def oldSelfSigned_def
  worldCustomGood_def worldCustomCorrupt_def worldEmpty_def worldWatchesDown_def
  worldStoreDown_def worldDeleteForbidden_def worldCustomOnly_def worldPutDown_def
  worldAllDown_def

lemmas model_defs = ReconcileCustomCertWatch_def
  GetSecretFromRef_def client_Get_def client_Delete_def CustomTransportCertsWatchKey_def
  ExtractNamespacedName_def CAInternalSecretName_def CATypeString_def IsNotFound_def
  IsTransient_def

lemma watch_cases:
  obtains (failed) err dw where "watchOutcome D w es = (Some err, dw)"
        | (ok) dw where "watchOutcome D w es = (None, dw)"
  by (cases "watchOutcome D w es"; cases "fst (watchOutcome D w es)") auto

lemma pass_cases [consumes 1, case_names watch_failed fetch_failed shared self_signed
    parse_failed custom]:
  assumes pass: "ReconcileOrRetrieveCA D ctx w es labels globalCA rotationParams = (result, w')"
  obtains
    (watch_failed) err dw where
      "watchOutcome D w es = (Some err, dw)"
      "result = (None, Some err)"
      "w' = w\<lparr>DynamicWatches := dw,
               journal := journal w @ [CallReconcileCustomCertWatch (watchKeyOf D es)]\<rparr>"
  | (fetch_failed) dw s err where
      "watchOutcome D w es = (None, dw)"
      "fetchOutcome w es = (s, Some err)"
      "result = (None, Some err)"
      "w' = w\<lparr>DynamicWatches := dw,
               Recorder := Recorder w @ [warningEvent es EventReasonUnexpected err],
               journal := journal w @
                 [CallReconcileCustomCertWatch (watchKeyOf D es), CallGet (customCAKeyOf es),
                  CallEventf]\<rparr>"
  | (shared) dw g where
      "watchOutcome D w es = (None, dw)"
      "fetchOutcome w es = (None, None)"
      "globalCA = Some g"
      "result = (Some g, None)"
      "w' = w\<lparr>DynamicWatches := dw,
               journal := journal w @ [CallReconcileCustomCertWatch (watchKeyOf D es)]\<rparr>"
  | (self_signed) dw c where
      "watchOutcome D w es = (None, dw)"
      "fetchOutcome w es = (None, None)"
      "globalCA = None"
      "ReconcileCAForOwner D ctx (K8sClient w) (ESNamer D) es labels TransportCAType
         rotationParams = (result, c)"
      "w' = w\<lparr>DynamicWatches := dw, K8sClient := c,
               journal := journal w @
                 [CallReconcileCustomCertWatch (watchKeyOf D es), CallReconcileCAForOwner]\<rparr>"
  | (parse_failed) dw secret ca err where
      "watchOutcome D w es = (None, dw)"
      "fetchOutcome w es = (Some secret, None)"
      "ParseCustomCASecret D secret = (ca, Some err)"
      "result = (None, Some err)"
      "w' = w\<lparr>DynamicWatches := dw,
               Recorder := Recorder w @ [warningEvent es EventReasonValidation err],
               journal := journal w @
                 [CallReconcileCustomCertWatch (watchKeyOf D es), CallGet (customCAKeyOf es),
                  CallParseCustomCASecret, CallEventf]\<rparr>"
  | (custom) dw secret ca derr c where
      "watchOutcome D w es = (None, dw)"
      "fetchOutcome w es = (Some secret, None)"
      "ParseCustomCASecret D secret = (ca, None)"
      "client_Delete (K8sClient w) (selfSignedKeyOf D es) = (derr, c)"
      "result = (ca, None)"
      "w' = w\<lparr>DynamicWatches := dw, K8sClient := c,
               Logger := Logger w @
                 (if derr \<noteq> None \<and> \<not> IsNotFound (the derr) then
                    [\<lparr>msg = ''Failed to garbage collect self-signed transport CA secret, '' @
                             ''non-critical, continuing'',
                      keysAndValues =
                        [(''namespace'', Namespace (ExtractNamespacedName es)),
                         (''name'', Name (ExtractNamespacedName es)),
                         (''err'', Error (the derr))]\<rparr>]
                  else []),
               journal := journal w @
                 [CallReconcileCustomCertWatch (watchKeyOf D es), CallGet (customCAKeyOf es),
                  CallParseCustomCASecret, CallDelete (selfSignedKeyOf D es)] @
                 (if derr \<noteq> None \<and> \<not> IsNotFound (the derr) then [CallLogInfo] else [])\<rparr>"
proof (cases rule: watch_cases[where D=D and w=w and es=es])
  case (failed err dw)
  from pass_watch_failed[OF failed, where ctx=ctx and labels=labels
      and globalCA=globalCA and rotationParams=rotationParams] pass
  show ?thesis by (intro watch_failed[OF failed]) simp_all
next
  case (ok dw)
  obtain s ferr where fetch: "fetchOutcome w es = (s, ferr)"
    by (cases "fetchOutcome w es")
  show ?thesis
  proof (cases ferr)
    case (Some e)
    from pass_fetch_failed[OF ok fetch[unfolded Some], where ctx=ctx and labels=labels
      and globalCA=globalCA and rotationParams=rotationParams] pass
    show ?thesis by (intro fetch_failed[OF ok fetch[unfolded Some]]) simp_all
  next
    case None
    show ?thesis
    proof (cases s)
      case absent: None
      have fetch': "fetchOutcome w es = (None, None)" using fetch None absent by simp
      show ?thesis
      proof (cases globalCA)
        case (Some g)
        from pass_absent_shared[OF ok fetch', where ctx=ctx and labels=labels and g=g
          and rotationParams=rotationParams] pass Some
        show ?thesis by (intro shared[OF ok fetch' Some]) simp_all
      next
        case noShared: None
        obtain r c where p: "ReconcileCAForOwner D ctx (K8sClient w) (ESNamer D) es labels
            TransportCAType rotationParams = (r, c)"
          by (cases "ReconcileCAForOwner D ctx (K8sClient w) (ESNamer D) es labels
            TransportCAType rotationParams")
        from pass_absent_self_signed[OF ok fetch' p] pass noShared
        have "r = result" and w': "w' = w\<lparr>DynamicWatches := dw, K8sClient := c,
               journal := journal w @
                 [CallReconcileCustomCertWatch (watchKeyOf D es), CallReconcileCAForOwner]\<rparr>"
          by simp_all
        with p show ?thesis by (intro self_signed[OF ok fetch' noShared]) simp_all
      qed
    next
      case (Some secret)
      have fetch': "fetchOutcome w es = (Some secret, None)" using fetch None Some by simp
      obtain ca perr where parse: "ParseCustomCASecret D secret = (ca, perr)"
        by (cases "ParseCustomCASecret D secret")
      show ?thesis
      proof (cases perr)
        case (Some e)
        from pass_parse_failed[OF ok fetch' parse[unfolded Some], where ctx=ctx
          and labels=labels and globalCA=globalCA and rotationParams=rotationParams] pass
        show ?thesis by (intro parse_failed[OF ok fetch' parse[unfolded Some]]) simp_all
      next
        case parsed: None
        obtain derr c where del:
          "client_Delete (K8sClient w) (selfSignedKeyOf D es) = (derr, c)"
          by (cases "client_Delete (K8sClient w) (selfSignedKeyOf D es)")
        from pass_custom[OF ok fetch' parse[unfolded parsed] del, where ctx=ctx
          and labels=labels and globalCA=globalCA and rotationParams=rotationParams] pass
        show ?thesis by (intro custom[OF ok fetch' parse[unfolded parsed] del]) simp_all
      qed
    qed
  qed
qed

subsection \<open>The selection of the CA\<close>

text \<open>
  Claim C1, as stated, fails: the cluster \<open>prod\<close> references the secret \<open>custom-ca\<close>,
  the watch reconciliation and the fetch succeed, the secret is there and the parser
  rejects it, and no shared CA is supplied. Neither the custom case (the secret does not
  parse) nor the shared case (a secret is present) applies, the provisioner would return
  the CA of the self-signed secret the store holds, and the pass returns the parser's
  error and no CA.
\<close>

theorem unparseable_secret_no_provisioner:
  "fst (watchOutcome specDeps worldCustomCorrupt esCustom) = None
   \<and> fetchOutcome worldCustomCorrupt esCustom = (Some corruptSecret, None)
   \<and> ParseCustomCASecret specDeps corruptSecret
       = (None, Some (NewError StatusReasonUnknown ''can't find ca.crt in secret custom-ca''))
   \<and> fst (ReconcileCAForOwner specDeps Background (K8sClient worldCustomCorrupt)
             (ESNamer specDeps) esCustom [] TransportCAType year)
       = (Some \<lparr>Cert = ''OLDCERT'', PrivateKey = Some ''OLDKEY''\<rparr>, None)
   \<and> fst (ReconcileOrRetrieveCA specDeps Background worldCustomCorrupt esCustom [] None year)
       = (None, Some (NewError StatusReasonUnknown ''can't find ca.crt in secret custom-ca''))"
  by (simp add: example_defs model_defs ReconcileOrRetrieveCA_def Let_def call_defs)

text \<open>
  Claim C1, amended. In a pass whose watch reconciliation and whose fetch of the custom
  CA secret both succeed: when the fetch returns a secret that parses as a CA, the pass
  returns exactly that CA, and the self-signed provisioner is not called; when the fetch
  returns no secret and a shared CA is supplied, the pass returns exactly the shared CA,
  and calls neither the parser nor the provisioner; when the fetch returns no secret and
  no shared CA is supplied, the pass returns what the self-signed provisioner returns,
  and the provisioner is the only helper called after the watch reconciliation; when the
  fetch returns a secret that the parser rejects, the pass returns the parser's error and
  no CA, whether a shared CA is supplied or not, and the provisioner is not called.
\<close>

theorem selection_precedence:
  assumes "ReconcileOrRetrieveCA D ctx w es labels globalCA rotationParams = (result, w')"
      and "fst (watchOutcome D w es) = None"
      and "fetchOutcome w es = (customCASecret, None)"
  shows "(\<forall>secret ca. customCASecret = Some secret
            \<and> ParseCustomCASecret D secret = (Some ca, None)
          \<longrightarrow> result = (Some ca, None) \<and> CallReconcileCAForOwner \<notin> set (callsOf w w'))
       \<and> (\<forall>g. customCASecret = None \<and> globalCA = Some g
          \<longrightarrow> result = (Some g, None)
              \<and> callsOf w w' = [CallReconcileCustomCertWatch (watchKeyOf D es)])
       \<and> (customCASecret = None \<and> globalCA = None
          \<longrightarrow> result = fst (ReconcileCAForOwner D ctx (K8sClient w) (ESNamer D) es labels
                              TransportCAType rotationParams)
              \<and> callsOf w w' =
                  [CallReconcileCustomCertWatch (watchKeyOf D es), CallReconcileCAForOwner])
       \<and> (\<forall>secret ca err. customCASecret = Some secret
            \<and> ParseCustomCASecret D secret = (ca, Some err)
          \<longrightarrow> result = (None, Some err) \<and> CallReconcileCAForOwner \<notin> set (callsOf w w'))"
proof -
  obtain dw where watch: "watchOutcome D w es = (None, dw)"
    using assms(2) by (cases "watchOutcome D w es") auto
  have rejected: "result = (None, Some err) \<and> CallReconcileCAForOwner \<notin> set (callsOf w w')"
    if "customCASecret = Some secret" "ParseCustomCASecret D secret = (ca, Some err)"
    for secret ca err
  proof -
    have fetch: "fetchOutcome w es = (Some secret, None)"
      using assms(3) that(1) by simp
    from pass_parse_failed[OF watch fetch that(2), where ctx=ctx and labels=labels
        and globalCA=globalCA and rotationParams=rotationParams] assms(1)
    show ?thesis by auto
  qed
  have custom: "result = (Some ca, None) \<and> CallReconcileCAForOwner \<notin> set (callsOf w w')"
    if "customCASecret = Some secret" "ParseCustomCASecret D secret = (Some ca, None)"
    for secret ca
  proof -
    obtain derr c where del: "client_Delete (K8sClient w) (selfSignedKeyOf D es) = (derr, c)"
      by (cases "client_Delete (K8sClient w) (selfSignedKeyOf D es)")
    have fetch: "fetchOutcome w es = (Some secret, None)"
      using assms(3) that(1) by simp
    from pass_custom[OF watch fetch that(2) del, where ctx=ctx and labels=labels
        and globalCA=globalCA and rotationParams=rotationParams] assms(1)
    show ?thesis by auto
  qed
  have shared: "result = (Some g, None)
      \<and> callsOf w w' = [CallReconcileCustomCertWatch (watchKeyOf D es)]"
    if "customCASecret = None" "globalCA = Some g" for g
    using pass_absent_shared[OF watch, where ctx=ctx and labels=labels and g=g
        and rotationParams=rotationParams] assms(1,3) that by auto
  have self: "result = fst (ReconcileCAForOwner D ctx (K8sClient w) (ESNamer D) es labels
                              TransportCAType rotationParams)
      \<and> callsOf w w' = [CallReconcileCustomCertWatch (watchKeyOf D es), CallReconcileCAForOwner]"
    if "customCASecret = None" "globalCA = None"
  proof -
    obtain r c where prov: "ReconcileCAForOwner D ctx (K8sClient w) (ESNamer D) es labels
        TransportCAType rotationParams = (r, c)"
      by (cases "ReconcileCAForOwner D ctx (K8sClient w) (ESNamer D) es labels
        TransportCAType rotationParams")
    have fetch: "fetchOutcome w es = (None, None)"
      using assms(3) that(1) by simp
    from pass_absent_self_signed[OF watch fetch prov] assms(1) that(2) prov
    show ?thesis by auto
  qed
  from custom shared self rejected show ?thesis by blast
qed

theorem selection_precedence_witness:
  "fst (watchOutcome specDeps worldCustomGood esCustom) = None
   \<and> fetchOutcome worldCustomGood esCustom = (Some goodSecret, None)
   \<and> ParseCustomCASecret specDeps goodSecret
       = (Some \<lparr>Cert = ''CERT'', PrivateKey = Some ''KEY''\<rparr>, None)
   \<and> fst (ReconcileOrRetrieveCA specDeps Background worldCustomGood esCustom [] (Some sharedCA) year)
       = (Some \<lparr>Cert = ''CERT'', PrivateKey = Some ''KEY''\<rparr>, None)
   \<and> fst (watchOutcome specDeps worldEmpty esPlain) = None
   \<and> fetchOutcome worldEmpty esPlain = (None, None)
   \<and> fst (ReconcileOrRetrieveCA specDeps Background worldEmpty esPlain [] (Some sharedCA) year)
       = (Some sharedCA, None)
   \<and> fst (ReconcileOrRetrieveCA specDeps Background worldEmpty esPlain [] None year)
       = (Some \<lparr>Cert = ''prod-transport-ca'', PrivateKey = Some ''prod-transport-key''\<rparr>, None)
   \<and> fst (watchOutcome specDeps worldCustomCorrupt esCustom) = None
   \<and> fetchOutcome worldCustomCorrupt esCustom = (Some corruptSecret, None)
   \<and> ParseCustomCASecret specDeps corruptSecret
       = (None, Some (NewError StatusReasonUnknown ''can't find ca.crt in secret custom-ca''))
   \<and> fst (ReconcileOrRetrieveCA specDeps Background worldCustomCorrupt esCustom []
        (Some sharedCA) year)
       = (None, Some (NewError StatusReasonUnknown ''can't find ca.crt in secret custom-ca''))"
proof -
  have w3: "fst (watchOutcome specDeps worldCustomCorrupt esCustom) = None"
    by (simp add: example_defs model_defs)
  have f3: "fetchOutcome worldCustomCorrupt esCustom = (Some corruptSecret, None)"
    by (simp add: example_defs model_defs)
  have p3: "ParseCustomCASecret specDeps corruptSecret
       = (None, Some (NewError StatusReasonUnknown ''can't find ca.crt in secret custom-ca''))"
    by (simp add: example_defs)
  have rejected: "fst (ReconcileOrRetrieveCA specDeps Background worldCustomCorrupt esCustom []
        (Some sharedCA) year)
       = (None, Some (NewError StatusReasonUnknown ''can't find ca.crt in secret custom-ca''))"
    using selection_precedence[OF prod.collapse[symmetric] w3 f3,
        where globalCA="Some sharedCA" and ctx=Background and labels="[]" and rotationParams=year]
      p3
    by simp
  have w1: "fst (watchOutcome specDeps worldCustomGood esCustom) = None"
    by (simp add: example_defs model_defs)
  have f1: "fetchOutcome worldCustomGood esCustom = (Some goodSecret, None)"
    by (simp add: example_defs model_defs)
  have p1: "ParseCustomCASecret specDeps goodSecret
       = (Some \<lparr>Cert = ''CERT'', PrivateKey = Some ''KEY''\<rparr>, None)"
    by (simp add: example_defs)
  have w2: "fst (watchOutcome specDeps worldEmpty esPlain) = None"
    by (simp add: example_defs model_defs)
  have f2: "fetchOutcome worldEmpty esPlain = (None, None)"
    by (simp add: example_defs model_defs)
  have prov: "fst (ReconcileCAForOwner specDeps Background (K8sClient worldEmpty) (ESNamer specDeps)
                esPlain [] TransportCAType year)
       = (Some \<lparr>Cert = ''prod-transport-ca'', PrivateKey = Some ''prod-transport-key''\<rparr>, None)"
    by (simp add: example_defs model_defs Let_def)
  have custom: "fst (ReconcileOrRetrieveCA specDeps Background worldCustomGood esCustom []
        (Some sharedCA) year) = (Some \<lparr>Cert = ''CERT'', PrivateKey = Some ''KEY''\<rparr>, None)"
    using selection_precedence[OF prod.collapse[symmetric] w1 f1] p1 by simp
  have shared: "fst (ReconcileOrRetrieveCA specDeps Background worldEmpty esPlain []
        (Some sharedCA) year) = (Some sharedCA, None)"
    using selection_precedence[OF prod.collapse[symmetric] w2 f2,
        where globalCA="Some sharedCA" and ctx=Background and labels="[]" and rotationParams=year]
    by simp
  have self: "fst (ReconcileOrRetrieveCA specDeps Background worldEmpty esPlain [] None year)
       = (Some \<lparr>Cert = ''prod-transport-ca'', PrivateKey = Some ''prod-transport-key''\<rparr>, None)"
    using selection_precedence[OF prod.collapse[symmetric] w2 f2,
        where globalCA=None and ctx=Background and labels="[]" and rotationParams=year] prov
    by simp
  from w1 f1 p1 custom w2 f2 shared self w3 f3 p3 rejected show ?thesis by (intro conjI)
qed


subsection \<open>Errors of the custom CA secret\<close>

text \<open>
  Claim C2. In a pass that fetches the custom CA secret (the watch reconciliation
  succeeds, and the store answers the fetch with the secret) and whose parser rejects it: the pass
  returns the parser's error and no CA, the recorder gets exactly one more event, a
  warning of reason Validation whose message is the error's text, and the store is what
  it was: after the parser the pass calls the recorder and nothing else.
\<close>

theorem parse_failure_reported:
  assumes "ReconcileOrRetrieveCA D ctx w es labels globalCA rotationParams = (result, w')"
      and "fst (watchOutcome D w es) = None"
      and "fetchOutcome w es = (Some secret, None)"
      and "ParseCustomCASecret D secret = (ca, Some err)"
  shows "result = (None, Some err)
       \<and> Recorder w' = Recorder w @ [warningEvent es EventReasonValidation err]
       \<and> K8sClient w' = K8sClient w
       \<and> callsOf w w' =
           [CallReconcileCustomCertWatch (watchKeyOf D es), CallGet (customCAKeyOf es),
            CallParseCustomCASecret, CallEventf]"
proof -
  obtain dw where watch: "watchOutcome D w es = (None, dw)"
    using assms(2) by (cases "watchOutcome D w es") auto
  from pass_parse_failed[OF watch assms(3,4), where ctx=ctx and labels=labels
      and globalCA=globalCA and rotationParams=rotationParams] assms(1)
  show ?thesis by auto
qed

theorem parse_failure_reported_witness:
  "fst (watchOutcome specDeps worldCustomCorrupt esCustom) = None
   \<and> fetchOutcome worldCustomCorrupt esCustom = (Some corruptSecret, None)
   \<and> ParseCustomCASecret specDeps corruptSecret
       = (None, Some (NewError StatusReasonUnknown ''can't find ca.crt in secret custom-ca''))
   \<and> fst (ReconcileOrRetrieveCA specDeps Background worldCustomCorrupt esCustom [] None year)
       = (None, Some (NewError StatusReasonUnknown ''can't find ca.crt in secret custom-ca''))
   \<and> Recorder (snd (ReconcileOrRetrieveCA specDeps Background worldCustomCorrupt esCustom [] None year))
       = [\<lparr>involvedObject = \<lparr>Namespace = ''team-a'', Name = ''prod''\<rparr>,
           eventtype = EventTypeWarning, reason = EventReasonValidation,
           messageFmt = ''can't find ca.crt in secret custom-ca''\<rparr>]
   \<and> K8sClient (snd (ReconcileOrRetrieveCA specDeps Background worldCustomCorrupt esCustom [] None year))
       = K8sClient worldCustomCorrupt"
proof -
  have g: "fst (watchOutcome specDeps worldCustomCorrupt esCustom) = None"
    by (simp add: example_defs model_defs)
  have f: "fetchOutcome worldCustomCorrupt esCustom = (Some corruptSecret, None)"
    by (simp add: example_defs model_defs)
  have p: "ParseCustomCASecret specDeps corruptSecret
       = (None, Some (NewError StatusReasonUnknown ''can't find ca.crt in secret custom-ca''))"
    by (simp add: example_defs)
  have r: "Recorder worldCustomCorrupt = []"
    by (simp add: example_defs)
  have n: "ExtractNamespacedName esCustom = \<lparr>Namespace = ''team-a'', Name = ''prod''\<rparr>"
    by (simp add: example_defs model_defs)
  from parse_failure_reported[OF prod.collapse[symmetric] g f p,
      where ctx=Background and labels="[]" and globalCA=None and rotationParams=year] g f p r n
  show ?thesis by simp
qed

text \<open>
  Claim C3, as stated, fails: the cluster \<open>prod\<close> references the secret \<open>custom-ca\<close>,
  the store holds no such secret, and the watch registration fails. The pass returns the
  error of the watch and the recorder gets no event.
\<close>

theorem missing_secret_watch_failure_no_event:
  "SecretName (TransportCertificate esCustom) \<noteq> []
   \<and> secrets (K8sClient worldAllDown) (customCAKeyOf esCustom) = None
   \<and> Recorder worldAllDown = []
   \<and> fst (ReconcileOrRetrieveCA specDeps Background worldAllDown esCustom [] None year)
       = (None, Some unavailable)
   \<and> Recorder (snd (ReconcileOrRetrieveCA specDeps Background worldAllDown esCustom [] None year))
       = []"
  by (simp add: example_defs model_defs ReconcileOrRetrieveCA_def Let_def call_defs)

text \<open>
  Claim C3, amended. In a pass with a custom CA reference whose secret is not in the
  store: the pass returns an error, and the store is what it was. When the watch
  reconciliation succeeds, the recorder gets exactly one more event, a warning (of reason
  Unexpected) whose message is the text of the returned error, which is a NotFound error
  unless the store itself fails the read. When the watch reconciliation fails, the pass
  returns that error and the recorder gets no event.
\<close>

theorem missing_secret_reported:
  assumes "ReconcileOrRetrieveCA D ctx w es labels globalCA rotationParams = (result, w')"
      and "SecretName (TransportCertificate es) \<noteq> []"
      and "secrets (K8sClient w) (customCAKeyOf es) = None"
  shows "snd result \<noteq> None
       \<and> K8sClient w' = K8sClient w
       \<and> (fst (watchOutcome D w es) = None \<longrightarrow>
            (\<exists>err. result = (None, Some err)
               \<and> Recorder w' = Recorder w @ [warningEvent es EventReasonUnexpected err]
               \<and> (getFault (K8sClient w) = None \<longrightarrow> IsNotFound err)))
       \<and> (\<forall>e. fst (watchOutcome D w es) = Some e \<longrightarrow>
            result = (None, Some e) \<and> Recorder w' = Recorder w)"
proof (cases rule: watch_cases[where D=D and w=w and es=es])
  case (failed err dw)
  from pass_watch_failed[OF failed, where ctx=ctx and labels=labels
      and globalCA=globalCA and rotationParams=rotationParams] assms(1) failed
  show ?thesis by auto
next
  case (ok dw)
  have "\<exists>err. fetchOutcome w es = (None, Some err)
      \<and> (getFault (K8sClient w) = None \<longrightarrow> IsNotFound err)"
    using assms(2,3)
    by (cases "getFault (K8sClient w)")
       (simp_all add: GetSecretFromRef_def client_Get_def IsNotFound_def)
  then obtain err where fetch: "fetchOutcome w es = (None, Some err)"
      and nf: "getFault (K8sClient w) = None \<longrightarrow> IsNotFound err"
    by (elim exE conjE)
  from pass_fetch_failed[OF ok fetch, where ctx=ctx and labels=labels
      and globalCA=globalCA and rotationParams=rotationParams] assms(1) nf ok
  show ?thesis by auto
qed

theorem missing_secret_reported_witness:
  "SecretName (TransportCertificate esCustom) \<noteq> []
   \<and> secrets (K8sClient worldEmpty) (customCAKeyOf esCustom) = None
   \<and> fst (watchOutcome specDeps worldEmpty esCustom) = None
   \<and> getFault (K8sClient worldEmpty) = None
   \<and> snd (fst (ReconcileOrRetrieveCA specDeps Background worldEmpty esCustom [] None year)) \<noteq> None
   \<and> K8sClient (snd (ReconcileOrRetrieveCA specDeps Background worldEmpty esCustom [] None year))
       = K8sClient worldEmpty
   \<and> (\<exists>err. IsNotFound err
         \<and> fst (ReconcileOrRetrieveCA specDeps Background worldEmpty esCustom [] None year)
             = (None, Some err)
         \<and> Recorder (snd (ReconcileOrRetrieveCA specDeps Background worldEmpty esCustom [] None year))
             = [warningEvent esCustom EventReasonUnexpected err])
   \<and> secrets (K8sClient worldAllDown) (customCAKeyOf esCustom) = None
   \<and> fst (watchOutcome specDeps worldAllDown esCustom) = Some unavailable
   \<and> fst (ReconcileOrRetrieveCA specDeps Background worldAllDown esCustom [] None year)
       = (None, Some unavailable)"
proof -
  have c: "SecretName (TransportCertificate esCustom) \<noteq> []"
    by (simp add: example_defs)
  have m: "secrets (K8sClient worldEmpty) (customCAKeyOf esCustom) = None"
    and m': "secrets (K8sClient worldAllDown) (customCAKeyOf esCustom) = None"
    by (simp_all add: example_defs)
  have w: "fst (watchOutcome specDeps worldEmpty esCustom) = None"
    and w': "fst (watchOutcome specDeps worldAllDown esCustom) = Some unavailable"
    by (simp_all add: example_defs model_defs)
  have g: "getFault (K8sClient worldEmpty) = None"
    by (simp add: example_defs)
  have r: "Recorder worldEmpty = []"
    by (simp add: example_defs)
  from missing_secret_reported[OF prod.collapse[symmetric] c m,
      where D=specDeps and ctx=Background and labels="[]" and globalCA=None and rotationParams=year]
    w g r
  have a: "snd (fst (ReconcileOrRetrieveCA specDeps Background worldEmpty esCustom [] None year))
        \<noteq> None
     \<and> K8sClient (snd (ReconcileOrRetrieveCA specDeps Background worldEmpty esCustom [] None year))
         = K8sClient worldEmpty
     \<and> (\<exists>err. IsNotFound err
         \<and> fst (ReconcileOrRetrieveCA specDeps Background worldEmpty esCustom [] None year)
             = (None, Some err)
         \<and> Recorder (snd (ReconcileOrRetrieveCA specDeps Background worldEmpty esCustom [] None year))
             = [warningEvent esCustom EventReasonUnexpected err])"
    by auto
  from missing_secret_reported[OF prod.collapse[symmetric] c m',
      where D=specDeps and ctx=Background and labels="[]" and globalCA=None and rotationParams=year]
    w'
  have b: "fst (ReconcileOrRetrieveCA specDeps Background worldAllDown esCustom [] None year)
       = (None, Some unavailable)"
    by auto
  from c m w g a m' w' b show ?thesis by (intro conjI) simp_all
qed

subsection \<open>Garbage collection of the self-signed CA\<close>

text \<open>
  Claim C4, as stated, fails: the cluster \<open>prod\<close> references the secret \<open>custom-ca\<close>,
  the store holds it and the parser accepts it, and the watch registration fails. The
  pass returns the error of the watch and no CA, and calls no delete.
\<close>

theorem valid_secret_watch_failure_no_delete:
  "fetchOutcome worldWatchesDown esCustom = (Some goodSecret, None)
   \<and> ParseCustomCASecret specDeps goodSecret
       = (Some \<lparr>Cert = ''CERT'', PrivateKey = Some ''KEY''\<rparr>, None)
   \<and> fst (ReconcileOrRetrieveCA specDeps Background worldWatchesDown esCustom [] None year)
       = (None, Some unavailable)
   \<and> filter isDeleteCall (callsOf worldWatchesDown
        (snd (ReconcileOrRetrieveCA specDeps Background worldWatchesDown esCustom [] None year)))
       = []"
  by (simp add: example_defs model_defs ReconcileOrRetrieveCA_def Let_def call_defs callsOf_def)

text \<open>
  Claim C4, amended. In a pass whose custom CA secret is present (the store answers the
  fetch with it) and parses successfully: when the watch reconciliation succeeds, the
  pass returns exactly the parsed CA and no error, whatever the delete answers; it calls
  the store's delete exactly once, for the self-signed CA secret of this cluster under its
  deterministic name, and the store is what this delete leaves; no event is recorded;
  when the delete succeeds or answers NotFound nothing is logged, and any other failure
  adds exactly one log line, which carries the error's text. When the watch
  reconciliation fails, the pass returns that error and no CA, calls no delete, and
  leaves the store as it was.
\<close>

theorem garbage_collection_best_effort:
  assumes "ReconcileOrRetrieveCA D ctx w es labels globalCA rotationParams = (result, w')"
      and "fetchOutcome w es = (Some secret, None)"
      and "ParseCustomCASecret D secret = (Some ca, None)"
  shows "(fst (watchOutcome D w es) = None \<longrightarrow>
            result = (Some ca, None)
          \<and> filter isDeleteCall (callsOf w w') = [CallDelete (selfSignedKeyOf D es)]
          \<and> K8sClient w' = snd (client_Delete (K8sClient w) (selfSignedKeyOf D es))
          \<and> Recorder w' = Recorder w
          \<and> (fst (client_Delete (K8sClient w) (selfSignedKeyOf D es)) = None
               \<longrightarrow> Logger w' = Logger w)
          \<and> (\<forall>e. fst (client_Delete (K8sClient w) (selfSignedKeyOf D es)) = Some e
                  \<and> IsNotFound e
               \<longrightarrow> Logger w' = Logger w)
          \<and> (\<forall>e. fst (client_Delete (K8sClient w) (selfSignedKeyOf D es)) = Some e
                  \<and> \<not> IsNotFound e
               \<longrightarrow> (\<exists>entry. Logger w' = Logger w @ [entry]
                      \<and> (''err'', Error e) \<in> set (keysAndValues entry))))
       \<and> (\<forall>e. fst (watchOutcome D w es) = Some e \<longrightarrow>
            result = (None, Some e)
          \<and> filter isDeleteCall (callsOf w w') = []
          \<and> K8sClient w' = K8sClient w)"
proof (cases rule: watch_cases[where D=D and w=w and es=es])
  case (failed err dw)
  from pass_watch_failed[OF failed, where ctx=ctx and labels=labels
      and globalCA=globalCA and rotationParams=rotationParams] assms(1) failed
  show ?thesis by auto
next
  case (ok dw)
  obtain derr c where del: "client_Delete (K8sClient w) (selfSignedKeyOf D es) = (derr, c)"
    by (cases "client_Delete (K8sClient w) (selfSignedKeyOf D es)")
  from pass_custom[OF ok assms(2,3) del, where ctx=ctx and labels=labels
      and globalCA=globalCA and rotationParams=rotationParams] assms(1) del ok
  show ?thesis by auto
qed

theorem garbage_collection_best_effort_witness:
  "fst (watchOutcome specDeps worldCustomGood esCustom) = None
   \<and> fetchOutcome worldCustomGood esCustom = (Some goodSecret, None)
   \<and> fetchOutcome worldCustomOnly esCustom = (Some goodSecret, None)
   \<and> fetchOutcome worldDeleteForbidden esCustom = (Some goodSecret, None)
   \<and> ParseCustomCASecret specDeps goodSecret
       = (Some \<lparr>Cert = ''CERT'', PrivateKey = Some ''KEY''\<rparr>, None)
   \<and> selfSignedKeyOf specDeps esCustom = selfSignedKey
   \<and> fst (client_Delete (K8sClient worldCustomGood) selfSignedKey) = None
   \<and> fst (ReconcileOrRetrieveCA specDeps Background worldCustomGood esCustom [] None year)
       = (Some \<lparr>Cert = ''CERT'', PrivateKey = Some ''KEY''\<rparr>, None)
   \<and> filter isDeleteCall (callsOf worldCustomGood
        (snd (ReconcileOrRetrieveCA specDeps Background worldCustomGood esCustom [] None year)))
       = [CallDelete selfSignedKey]
   \<and> Logger (snd (ReconcileOrRetrieveCA specDeps Background worldCustomGood esCustom [] None year)) = []
   \<and> IsNotFound (the (fst (client_Delete (K8sClient worldCustomOnly) selfSignedKey)))
   \<and> fst (ReconcileOrRetrieveCA specDeps Background worldCustomOnly esCustom [] None year)
       = (Some \<lparr>Cert = ''CERT'', PrivateKey = Some ''KEY''\<rparr>, None)
   \<and> Logger (snd (ReconcileOrRetrieveCA specDeps Background worldCustomOnly esCustom [] None year)) = []
   \<and> fst (client_Delete (K8sClient worldDeleteForbidden) selfSignedKey) = Some forbidden
   \<and> \<not> IsNotFound forbidden
   \<and> fst (ReconcileOrRetrieveCA specDeps Background worldDeleteForbidden esCustom [] None year)
       = (Some \<lparr>Cert = ''CERT'', PrivateKey = Some ''KEY''\<rparr>, None)
   \<and> length (Logger (snd (ReconcileOrRetrieveCA specDeps Background worldDeleteForbidden esCustom []
        None year))) = 1
   \<and> Recorder (snd (ReconcileOrRetrieveCA specDeps Background worldDeleteForbidden esCustom []
        None year)) = []
   \<and> fst (watchOutcome specDeps worldWatchesDown esCustom) = Some unavailable
   \<and> fetchOutcome worldWatchesDown esCustom = (Some goodSecret, None)
   \<and> fst (ReconcileOrRetrieveCA specDeps Background worldWatchesDown esCustom [] None year)
       = (None, Some unavailable)
   \<and> filter isDeleteCall (callsOf worldWatchesDown
        (snd (ReconcileOrRetrieveCA specDeps Background worldWatchesDown esCustom [] None year)))
       = []"
proof -
  have w1: "fst (watchOutcome specDeps worldCustomGood esCustom) = None"
    and w2: "fst (watchOutcome specDeps worldCustomOnly esCustom) = None"
    and w3: "fst (watchOutcome specDeps worldDeleteForbidden esCustom) = None"
    and w4: "fst (watchOutcome specDeps worldWatchesDown esCustom) = Some unavailable"
    by (simp_all add: example_defs model_defs)
  have f4: "fetchOutcome worldWatchesDown esCustom = (Some goodSecret, None)"
    by (simp add: example_defs model_defs)
  have f1: "fetchOutcome worldCustomGood esCustom = (Some goodSecret, None)"
    and f2: "fetchOutcome worldCustomOnly esCustom = (Some goodSecret, None)"
    and f3: "fetchOutcome worldDeleteForbidden esCustom = (Some goodSecret, None)"
    by (simp_all add: example_defs model_defs)
  have p: "ParseCustomCASecret specDeps goodSecret
       = (Some \<lparr>Cert = ''CERT'', PrivateKey = Some ''KEY''\<rparr>, None)"
    by (simp add: example_defs)
  have k: "selfSignedKeyOf specDeps esCustom = selfSignedKey"
    by (simp add: example_defs model_defs)
  have d1: "fst (client_Delete (K8sClient worldCustomGood) selfSignedKey) = None"
    by (simp add: example_defs model_defs)
  have d2: "\<exists>e. fst (client_Delete (K8sClient worldCustomOnly) selfSignedKey) = Some e
              \<and> IsNotFound e"
    by (simp add: example_defs model_defs)
  have d3: "fst (client_Delete (K8sClient worldDeleteForbidden) selfSignedKey) = Some forbidden"
    by (simp add: example_defs model_defs)
  have nf: "\<not> IsNotFound forbidden"
    by (simp add: example_defs model_defs)
  have l: "Logger worldCustomGood = []" "Logger worldCustomOnly = []"
    "Logger worldDeleteForbidden = []" "Recorder worldDeleteForbidden = []"
    by (simp_all add: example_defs)
  from garbage_collection_best_effort[OF prod.collapse[symmetric] f1 p,
      where ctx=Background and labels="[]" and globalCA=None and rotationParams=year]
    w1 k d1 l
  have a: "fst (ReconcileOrRetrieveCA specDeps Background worldCustomGood esCustom [] None year)
       = (Some \<lparr>Cert = ''CERT'', PrivateKey = Some ''KEY''\<rparr>, None)
     \<and> filter isDeleteCall (callsOf worldCustomGood
        (snd (ReconcileOrRetrieveCA specDeps Background worldCustomGood esCustom [] None year)))
       = [CallDelete selfSignedKey]
     \<and> Logger (snd (ReconcileOrRetrieveCA specDeps Background worldCustomGood esCustom [] None year)) = []"
    by simp
  from garbage_collection_best_effort[OF prod.collapse[symmetric] f2 p,
      where ctx=Background and labels="[]" and globalCA=None and rotationParams=year]
    w2 k d2 l
  have b: "fst (ReconcileOrRetrieveCA specDeps Background worldCustomOnly esCustom [] None year)
       = (Some \<lparr>Cert = ''CERT'', PrivateKey = Some ''KEY''\<rparr>, None)
     \<and> Logger (snd (ReconcileOrRetrieveCA specDeps Background worldCustomOnly esCustom [] None year)) = []"
    by auto
  from garbage_collection_best_effort[OF prod.collapse[symmetric] f3 p,
      where ctx=Background and labels="[]" and globalCA=None and rotationParams=year]
    w3 k d3 nf l
  have c: "fst (ReconcileOrRetrieveCA specDeps Background worldDeleteForbidden esCustom [] None year)
       = (Some \<lparr>Cert = ''CERT'', PrivateKey = Some ''KEY''\<rparr>, None)
     \<and> length (Logger (snd (ReconcileOrRetrieveCA specDeps Background worldDeleteForbidden esCustom []
        None year))) = 1
     \<and> Recorder (snd (ReconcileOrRetrieveCA specDeps Background worldDeleteForbidden esCustom []
        None year)) = []"
    by auto
  from d2 have d2': "IsNotFound (the (fst (client_Delete (K8sClient worldCustomOnly) selfSignedKey)))"
    by auto
  from garbage_collection_best_effort[OF prod.collapse[symmetric] f4 p,
      where ctx=Background and labels="[]" and globalCA=None and rotationParams=year]
    w4
  have d: "fst (ReconcileOrRetrieveCA specDeps Background worldWatchesDown esCustom [] None year)
       = (None, Some unavailable)
     \<and> filter isDeleteCall (callsOf worldWatchesDown
        (snd (ReconcileOrRetrieveCA specDeps Background worldWatchesDown esCustom [] None year)))
       = []"
    by simp
  from w1 f1 f2 f3 p k d1 a d2' b d3 nf c w4 f4 d show ?thesis by simp
qed

subsection \<open>Failures of the collaborators\<close>

text \<open>
  Claim C5. In a pass whose watch reconciliation fails (installing or removing): the
  pass returns that error and no CA, the watch reconciliation is the only call of the
  pass (no fetch, no parse, no delete, no provisioner, no event, no log line), and the
  store, the recorder and the log are what they were.
\<close>

theorem watch_failure_aborts:
  assumes "ReconcileOrRetrieveCA D ctx w es labels globalCA rotationParams = (result, w')"
      and "fst (watchOutcome D w es) = Some err"
  shows "result = (None, Some err)
       \<and> K8sClient w' = K8sClient w
       \<and> Recorder w' = Recorder w
       \<and> Logger w' = Logger w
       \<and> callsOf w w' = [CallReconcileCustomCertWatch (watchKeyOf D es)]"
proof -
  obtain dw where watch: "watchOutcome D w es = (Some err, dw)"
    using assms(2) by (cases "watchOutcome D w es") auto
  from pass_watch_failed[OF watch, where ctx=ctx and labels=labels
      and globalCA=globalCA and rotationParams=rotationParams] assms(1)
  show ?thesis by auto
qed

theorem watch_failure_aborts_witness:
  "fst (watchOutcome specDeps worldWatchesDown esCustom) = Some unavailable
   \<and> fst (ReconcileOrRetrieveCA specDeps Background worldWatchesDown esCustom [] (Some sharedCA) year)
       = (None, Some unavailable)
   \<and> callsOf worldWatchesDown
        (snd (ReconcileOrRetrieveCA specDeps Background worldWatchesDown esCustom [] (Some sharedCA) year))
       = [CallReconcileCustomCertWatch ''prod-custom-transport-certs'']
   \<and> Recorder (snd (ReconcileOrRetrieveCA specDeps Background worldWatchesDown esCustom []
        (Some sharedCA) year)) = []"
proof -
  have w: "fst (watchOutcome specDeps worldWatchesDown esCustom) = Some unavailable"
    by (simp add: example_defs model_defs)
  have k: "watchKeyOf specDeps esCustom = ''prod-custom-transport-certs''"
    by (simp add: example_defs model_defs)
  have r: "Recorder worldWatchesDown = []"
    by (simp add: example_defs)
  from watch_failure_aborts[OF prod.collapse[symmetric] w,
      where ctx=Background and labels="[]" and globalCA="Some sharedCA" and rotationParams=year]
    w k r
  show ?thesis by simp
qed

text \<open>
  Claim C6, as stated, fails: the cluster \<open>prod\<close> references the secret \<open>custom-ca\<close>
  and the store is unavailable when the pass reads it. The pass returns that transient
  error, and the recorder gets a warning event for it.
\<close>

theorem transient_fetch_error_emits_event:
  "IsTransient unavailable
   \<and> Recorder worldStoreDown = []
   \<and> fst (ReconcileOrRetrieveCA specDeps Background worldStoreDown esCustom [] None year)
       = (None, Some unavailable)
   \<and> Recorder (snd (ReconcileOrRetrieveCA specDeps Background worldStoreDown esCustom [] None year))
       = [\<lparr>involvedObject = \<lparr>Namespace = ''team-a'', Name = ''prod''\<rparr>,
           eventtype = EventTypeWarning, reason = EventReasonUnexpected,
           messageFmt = ''the server is currently unable to handle the request''\<rparr>]"
  by (simp add: example_defs model_defs ReconcileOrRetrieveCA_def Let_def call_defs)

text \<open>
  Claim C6, amended. A transient error (the store or the watch service is unavailable, or
  the deadline is exceeded) is returned to the caller unchanged. When it comes from the
  watch reconciliation or from the self-signed provisioner, the recorder gets no event;
  when it comes from the fetch of the referenced custom CA secret, the recorder gets
  exactly one more event, a warning of reason Unexpected whose message is the error's
  text.
\<close>

theorem transient_errors_propagated:
  assumes "ReconcileOrRetrieveCA D ctx w es labels globalCA rotationParams = (result, w')"
      and "IsTransient err"
  shows "(fst (watchOutcome D w es) = Some err
          \<longrightarrow> result = (None, Some err) \<and> Recorder w' = Recorder w)
       \<and> (fst (watchOutcome D w es) = None \<and> snd (fetchOutcome w es) = Some err
          \<longrightarrow> result = (None, Some err)
              \<and> Recorder w' = Recorder w @ [warningEvent es EventReasonUnexpected err])
       \<and> (fst (watchOutcome D w es) = None \<and> fetchOutcome w es = (None, None)
            \<and> globalCA = None
            \<and> snd (fst (ReconcileCAForOwner D ctx (K8sClient w) (ESNamer D) es labels
                          TransportCAType rotationParams)) = Some err
          \<longrightarrow> snd result = Some err \<and> Recorder w' = Recorder w)"
proof (cases rule: watch_cases[where D=D and w=w and es=es])
  case (failed e dw)
  from pass_watch_failed[OF failed, where ctx=ctx and labels=labels
      and globalCA=globalCA and rotationParams=rotationParams] assms(1) failed
  show ?thesis by auto
next
  case (ok dw)
  have fetch: "result = (None, Some err)
      \<and> Recorder w' = Recorder w @ [warningEvent es EventReasonUnexpected err]"
    if "snd (fetchOutcome w es) = Some err"
  proof -
    from that obtain s where "fetchOutcome w es = (s, Some err)"
      by (cases "fetchOutcome w es") auto
    from pass_fetch_failed[OF ok this, where ctx=ctx and labels=labels
      and globalCA=globalCA and rotationParams=rotationParams] assms(1)
    show ?thesis by auto
  qed
  have prov: "snd result = Some err \<and> Recorder w' = Recorder w"
    if "fetchOutcome w es = (None, None)" "globalCA = None"
       "snd (fst (ReconcileCAForOwner D ctx (K8sClient w) (ESNamer D) es labels
                          TransportCAType rotationParams)) = Some err"
  proof -
    obtain r c where p: "ReconcileCAForOwner D ctx (K8sClient w) (ESNamer D) es labels
        TransportCAType rotationParams = (r, c)"
      by (cases "ReconcileCAForOwner D ctx (K8sClient w) (ESNamer D) es labels
        TransportCAType rotationParams")
    from pass_absent_self_signed[OF ok that(1) p] assms(1) that(2,3) p
    show ?thesis by auto
  qed
  from ok fetch prov show ?thesis by auto
qed

theorem transient_errors_propagated_witness:
  "IsTransient unavailable
   \<and> fst (watchOutcome specDeps worldWatchesDown esCustom) = Some unavailable
   \<and> fst (ReconcileOrRetrieveCA specDeps Background worldWatchesDown esCustom [] None year)
       = (None, Some unavailable)
   \<and> Recorder (snd (ReconcileOrRetrieveCA specDeps Background worldWatchesDown esCustom [] None year))
       = []
   \<and> fst (watchOutcome specDeps worldStoreDown esCustom) = None
   \<and> snd (fetchOutcome worldStoreDown esCustom) = Some unavailable
   \<and> fst (ReconcileOrRetrieveCA specDeps Background worldStoreDown esCustom [] None year)
       = (None, Some unavailable)
   \<and> Recorder (snd (ReconcileOrRetrieveCA specDeps Background worldStoreDown esCustom [] None year))
       = [warningEvent esCustom EventReasonUnexpected unavailable]
   \<and> fst (watchOutcome specDeps worldPutDown esPlain) = None
   \<and> fetchOutcome worldPutDown esPlain = (None, None)
   \<and> snd (fst (ReconcileCAForOwner specDeps Background (K8sClient worldPutDown) (ESNamer specDeps)
                  esPlain [] TransportCAType year)) = Some unavailable
   \<and> snd (fst (ReconcileOrRetrieveCA specDeps Background worldPutDown esPlain [] None year))
       = Some unavailable
   \<and> Recorder (snd (ReconcileOrRetrieveCA specDeps Background worldPutDown esPlain [] None year))
       = []"
proof -
  have t: "IsTransient unavailable"
    by (simp add: example_defs model_defs)
  have w1: "fst (watchOutcome specDeps worldWatchesDown esCustom) = Some unavailable"
    and w2: "fst (watchOutcome specDeps worldStoreDown esCustom) = None"
    and w3: "fst (watchOutcome specDeps worldPutDown esPlain) = None"
    by (simp_all add: example_defs model_defs)
  have f2: "snd (fetchOutcome worldStoreDown esCustom) = Some unavailable"
    and f3: "fetchOutcome worldPutDown esPlain = (None, None)"
    by (simp_all add: example_defs model_defs)
  have p3: "snd (fst (ReconcileCAForOwner specDeps Background (K8sClient worldPutDown)
                  (ESNamer specDeps) esPlain [] TransportCAType year)) = Some unavailable"
    by (simp add: example_defs model_defs Let_def)
  have r: "Recorder worldWatchesDown = []" "Recorder worldStoreDown = []"
    "Recorder worldPutDown = []"
    by (simp_all add: example_defs)
  from transient_errors_propagated[OF prod.collapse[symmetric] t,
      where D=specDeps and w=worldWatchesDown and es=esCustom and ctx=Background and labels="[]"
        and globalCA=None and rotationParams=year] w1 r
  have a: "fst (ReconcileOrRetrieveCA specDeps Background worldWatchesDown esCustom [] None year)
       = (None, Some unavailable)
     \<and> Recorder (snd (ReconcileOrRetrieveCA specDeps Background worldWatchesDown esCustom [] None year))
       = []"
    by simp
  from transient_errors_propagated[OF prod.collapse[symmetric] t,
      where D=specDeps and w=worldStoreDown and es=esCustom and ctx=Background and labels="[]"
        and globalCA=None and rotationParams=year] w2 f2 r
  have b: "fst (ReconcileOrRetrieveCA specDeps Background worldStoreDown esCustom [] None year)
       = (None, Some unavailable)
     \<and> Recorder (snd (ReconcileOrRetrieveCA specDeps Background worldStoreDown esCustom [] None year))
       = [warningEvent esCustom EventReasonUnexpected unavailable]"
    by simp
  from transient_errors_propagated[OF prod.collapse[symmetric] t,
      where D=specDeps and w=worldPutDown and es=esPlain and ctx=Background and labels="[]"
        and globalCA=None and rotationParams=year] w3 f3 p3 r
  have c: "snd (fst (ReconcileOrRetrieveCA specDeps Background worldPutDown esPlain [] None year))
       = Some unavailable
     \<and> Recorder (snd (ReconcileOrRetrieveCA specDeps Background worldPutDown esPlain [] None year))
       = []"
    by simp
  from t w1 a w2 f2 b w3 f3 p3 c show ?thesis by simp
qed

subsection \<open>The shared CA\<close>

text \<open>
  Claim C8, as stated, fails: the cluster \<open>prod\<close> references no custom CA, a shared CA
  is supplied, and the removal of the watch fails. The pass returns the error of the
  watch, and no CA.
\<close>

theorem shared_ca_watch_failure_no_ca:
  "SecretName (TransportCertificate esPlain) = []
   \<and> fst (ReconcileOrRetrieveCA specDeps Background worldAllDown esPlain [] (Some sharedCA) year)
       = (None, Some unavailable)"
  by (simp add: example_defs model_defs ReconcileOrRetrieveCA_def Let_def call_defs)

text \<open>
  Claim C8, amended. In a pass with a shared CA supplied and no custom CA reference: the
  pass makes no call to the store, which is what it was (no self-signed CA secret is
  created or updated); its only call is the watch reconciliation. When that succeeds the
  pass returns exactly the shared CA and no error; when it fails the pass returns that
  error and no CA.
\<close>

theorem shared_ca_no_store_write:
  assumes "ReconcileOrRetrieveCA D ctx w es labels (Some g) rotationParams = (result, w')"
      and "SecretName (TransportCertificate es) = []"
  shows "K8sClient w' = K8sClient w
       \<and> callsOf w w' = [CallReconcileCustomCertWatch (watchKeyOf D es)]
       \<and> (fst (watchOutcome D w es) = None \<longrightarrow> result = (Some g, None))
       \<and> (\<forall>e. fst (watchOutcome D w es) = Some e \<longrightarrow> result = (None, Some e))"
proof (cases rule: watch_cases[where D=D and w=w and es=es])
  case (failed e dw)
  from pass_watch_failed[OF failed, where ctx=ctx and labels=labels
      and globalCA="Some g" and rotationParams=rotationParams] assms(1) failed
  show ?thesis by auto
next
  case (ok dw)
  have fetch: "fetchOutcome w es = (None, None)"
    using assms(2) by (simp add: GetSecretFromRef_absent)
  from pass_absent_shared[OF ok fetch, where ctx=ctx and labels=labels and g=g
      and rotationParams=rotationParams] assms(1) ok
  show ?thesis by auto
qed

theorem shared_ca_no_store_write_witness:
  "SecretName (TransportCertificate esPlain) = []
   \<and> fst (watchOutcome specDeps worldEmpty esPlain) = None
   \<and> fst (ReconcileOrRetrieveCA specDeps Background worldEmpty esPlain [] (Some sharedCA) year)
       = (Some sharedCA, None)
   \<and> K8sClient (snd (ReconcileOrRetrieveCA specDeps Background worldEmpty esPlain []
        (Some sharedCA) year)) = K8sClient worldEmpty
   \<and> callsOf worldEmpty (snd (ReconcileOrRetrieveCA specDeps Background worldEmpty esPlain []
        (Some sharedCA) year)) = [CallReconcileCustomCertWatch ''prod-custom-transport-certs'']
   \<and> fst (watchOutcome specDeps worldAllDown esPlain) = Some unavailable
   \<and> fst (ReconcileOrRetrieveCA specDeps Background worldAllDown esPlain [] (Some sharedCA) year)
       = (None, Some unavailable)"
proof -
  have n: "SecretName (TransportCertificate esPlain) = []"
    by (simp add: example_defs)
  have w: "fst (watchOutcome specDeps worldEmpty esPlain) = None"
    and w': "fst (watchOutcome specDeps worldAllDown esPlain) = Some unavailable"
    by (simp_all add: example_defs model_defs)
  have k: "watchKeyOf specDeps esPlain = ''prod-custom-transport-certs''"
    by (simp add: example_defs model_defs)
  from shared_ca_no_store_write[OF prod.collapse[symmetric] n,
      where D=specDeps and w=worldEmpty and ctx=Background and labels="[]" and g=sharedCA
        and rotationParams=year] w k
  have a: "fst (ReconcileOrRetrieveCA specDeps Background worldEmpty esPlain [] (Some sharedCA) year)
       = (Some sharedCA, None)
     \<and> K8sClient (snd (ReconcileOrRetrieveCA specDeps Background worldEmpty esPlain []
        (Some sharedCA) year)) = K8sClient worldEmpty
     \<and> callsOf worldEmpty (snd (ReconcileOrRetrieveCA specDeps Background worldEmpty esPlain []
        (Some sharedCA) year)) = [CallReconcileCustomCertWatch ''prod-custom-transport-certs'']"
    by simp
  from shared_ca_no_store_write[OF prod.collapse[symmetric] n,
      where D=specDeps and w=worldAllDown and ctx=Background and labels="[]" and g=sharedCA
        and rotationParams=year] w'
  have b: "fst (ReconcileOrRetrieveCA specDeps Background worldAllDown esPlain []
      (Some sharedCA) year) = (None, Some unavailable)"
    by simp
  from n w a w' b show ?thesis by (intro conjI) simp_all
qed

subsection \<open>The watch\<close>

text \<open>
  Claim C7 at the clusters \<open>prod\<close> of the namespaces \<open>team-a\<close> and \<open>team-b\<close>: they are
  two identities, and \<open>CustomTransportCertsWatchKey\<close>, which is given the namespace and
  the name, uses the name only and gives both the key \<open>prod-custom-transport-certs\<close>.
  The watches are kept under that key alone: the pass of \<open>team-a/prod\<close>, which references
  the secret \<open>custom-ca\<close>, registers its watch, and the next pass of \<open>team-b/prod\<close>,
  which references nothing, removes it.
\<close>

theorem watch_key_collision_across_namespaces:
  "ExtractNamespacedName esCustom \<noteq> ExtractNamespacedName esPlain
   \<and> CustomTransportCertsWatchKey ESNamer_Suffix (ExtractNamespacedName esCustom)
       = ''prod-custom-transport-certs''
   \<and> CustomTransportCertsWatchKey ESNamer_Suffix (ExtractNamespacedName esPlain)
       = ''prod-custom-transport-certs''
   \<and> handlers (DynamicWatches
        (snd (ReconcileOrRetrieveCA specDeps Background worldCustomGood esCustom [] None year)))
        ''prod-custom-transport-certs''
       = Some (\<lparr>Namespace = ''team-a'', Name = ''prod''\<rparr>,
               \<lparr>Namespace = ''team-a'', Name = ''custom-ca''\<rparr>)
   \<and> handlers (DynamicWatches
        (snd (ReconcileOrRetrieveCA specDeps Background
               (snd (ReconcileOrRetrieveCA specDeps Background worldCustomGood esCustom [] None year))
               esPlain [] None year)))
        ''prod-custom-transport-certs''
       = None"
  by (simp add: example_defs model_defs ReconcileOrRetrieveCA_def Let_def call_defs)

text \<open>
  Claim C9. In every pass the watch reconciliation is the first call, so the fetch of the
  custom CA secret, when the pass makes it, comes after. In every pass whose watch
  reconciliation does not fail, whatever the pass returns (the errors of a missing secret
  and of a rejected secret included), the watches it leaves are those the reconciliation
  produced: under the cluster's key, a registration for the referenced secret when there
  is a reference, and none when there is not.
\<close>

theorem watch_reconciled_first:
  assumes "ReconcileOrRetrieveCA D ctx w es labels globalCA rotationParams = (result, w')"
  shows "(\<exists>rest. callsOf w w' = CallReconcileCustomCertWatch (watchKeyOf D es) # rest
            \<and> (\<forall>key. CallGet key \<in> set (callsOf w w') \<longrightarrow> CallGet key \<in> set rest))
       \<and> (fst (watchOutcome D w es) = None \<longrightarrow>
            DynamicWatches w' = snd (watchOutcome D w es)
            \<and> handlers (DynamicWatches w') (watchKeyOf D es) =
                (if SecretName (TransportCertificate es) \<noteq> []
                 then Some (ExtractNamespacedName es, customCAKeyOf es) else None))"
proof -
  have reg: "handlers dw (watchKeyOf D es) =
      (if SecretName (TransportCertificate es) \<noteq> []
       then Some (ExtractNamespacedName es, customCAKeyOf es) else None)"
    if "watchOutcome D w es = (None, dw)" for dw
    using that by (auto simp: ReconcileCustomCertWatch_def split: option.splits if_splits)
  from assms show ?thesis
  proof (cases rule: pass_cases)
    case (watch_failed err dw)
    then show ?thesis by simp
  next
    case (fetch_failed dw s err)
    with reg[OF fetch_failed(1)] show ?thesis by simp
  next
    case (shared dw g)
    with reg[OF shared(1)] show ?thesis by simp
  next
    case (self_signed dw c)
    with reg[OF self_signed(1)] show ?thesis by simp
  next
    case (parse_failed dw secret ca err)
    with reg[OF parse_failed(1)] show ?thesis by simp
  next
    case (custom dw secret ca derr c)
    with reg[OF custom(1)] show ?thesis by simp
  qed
qed

theorem watch_reconciled_first_witness:
  "fst (watchOutcome specDeps worldCustomCorrupt esCustom) = None
   \<and> snd (fst (ReconcileOrRetrieveCA specDeps Background worldCustomCorrupt esCustom [] None year))
       \<noteq> None
   \<and> hd (callsOf worldCustomCorrupt
        (snd (ReconcileOrRetrieveCA specDeps Background worldCustomCorrupt esCustom [] None year)))
       = CallReconcileCustomCertWatch ''prod-custom-transport-certs''
   \<and> handlers (DynamicWatches
        (snd (ReconcileOrRetrieveCA specDeps Background worldCustomCorrupt esCustom [] None year)))
        ''prod-custom-transport-certs''
       = Some (\<lparr>Namespace = ''team-a'', Name = ''prod''\<rparr>,
               \<lparr>Namespace = ''team-a'', Name = ''custom-ca''\<rparr>)
   \<and> fst (watchOutcome specDeps worldEmpty esPlain) = None
   \<and> handlers (DynamicWatches
        (snd (ReconcileOrRetrieveCA specDeps Background worldEmpty esPlain [] None year)))
        ''prod-custom-transport-certs'' = None"
proof -
  have w1: "fst (watchOutcome specDeps worldCustomCorrupt esCustom) = None"
    and w2: "fst (watchOutcome specDeps worldEmpty esPlain) = None"
    by (simp_all add: example_defs model_defs)
  have k: "watchKeyOf specDeps esCustom = ''prod-custom-transport-certs''"
    "watchKeyOf specDeps esPlain = ''prod-custom-transport-certs''"
    by (simp_all add: example_defs model_defs)
  have n: "ExtractNamespacedName esCustom = \<lparr>Namespace = ''team-a'', Name = ''prod''\<rparr>"
    "customCAKeyOf esCustom = \<lparr>Namespace = ''team-a'', Name = ''custom-ca''\<rparr>"
    "SecretName (TransportCertificate esCustom) \<noteq> []"
    "SecretName (TransportCertificate esPlain) = []"
    by (simp_all add: example_defs model_defs)
  have e: "snd (fst (ReconcileOrRetrieveCA specDeps Background worldCustomCorrupt esCustom []
        None year)) \<noteq> None"
    by (simp add: example_defs model_defs ReconcileOrRetrieveCA_def Let_def call_defs)
  from watch_reconciled_first[OF prod.collapse[symmetric],
      where D=specDeps and w=worldCustomCorrupt and es=esCustom and ctx=Background
        and labels="[]" and globalCA=None and rotationParams=year] w1 k n
  have a: "hd (callsOf worldCustomCorrupt
        (snd (ReconcileOrRetrieveCA specDeps Background worldCustomCorrupt esCustom [] None year)))
       = CallReconcileCustomCertWatch ''prod-custom-transport-certs''
     \<and> handlers (DynamicWatches
        (snd (ReconcileOrRetrieveCA specDeps Background worldCustomCorrupt esCustom [] None year)))
        ''prod-custom-transport-certs''
       = Some (\<lparr>Namespace = ''team-a'', Name = ''prod''\<rparr>,
               \<lparr>Namespace = ''team-a'', Name = ''custom-ca''\<rparr>)"
    by auto
  from watch_reconciled_first[OF prod.collapse[symmetric],
      where D=specDeps and w=worldEmpty and es=esPlain and ctx=Background
        and labels="[]" and globalCA=None and rotationParams=year] w2 k n
  have b: "handlers (DynamicWatches
        (snd (ReconcileOrRetrieveCA specDeps Background worldEmpty esPlain [] None year)))
        ''prod-custom-transport-certs'' = None"
    by auto
  from w1 e a w2 b show ?thesis by simp
qed

section \<open>Properties of the service readiness check\<close>

lemma rangeSubsets_ready:
  "rangeSubsets subsets = (True, None) \<longleftrightarrow> (\<exists>subs \<in> set subsets. Addresses subs \<noteq> [])"
  by (induction subsets) auto

lemma rangeSubsets_not_ready:
  "rangeSubsets subsets = (False, None) \<longleftrightarrow> (\<forall>subs \<in> set subsets. Addresses subs = [])"
  by (induction subsets) auto

text \<open>
  Claim C10. When the read of the Endpoints object named after the service (its
  namespace and name) fails, \<open>IsServiceReady\<close> returns false and that error. When it
  succeeds, \<open>IsServiceReady\<close> returns true and no error exactly when some subset of the
  object has a non-empty list of addresses; with no subset, or with subsets whose
  addresses are all empty, it returns false and no error.
\<close>

theorem service_ready_iff_address:
  assumes "c \<lparr>Namespace = Namespace (ServiceMeta service), Name = Name (ServiceMeta service)\<rparr>
             \<lparr>Subsets = []\<rparr> = (getErr, endpoints)"
  shows "(\<forall>err. getErr = Some err \<longrightarrow> IsServiceReady c service = (False, Some err))
       \<and> (getErr = None \<longrightarrow>
            (IsServiceReady c service = (True, None)
               \<longleftrightarrow> (\<exists>subs \<in> set (Subsets endpoints). Addresses subs \<noteq> []))
            \<and> ((\<forall>subs \<in> set (Subsets endpoints). Addresses subs = [])
               \<longrightarrow> IsServiceReady c service = (False, None)))"
  using assms
  by (auto simp: IsServiceReady_def Let_def rangeSubsets_ready rangeSubsets_not_ready)

theorem service_ready_iff_address_witness:
  "getterOf [ServiceMeta httpService \<mapsto> readyEndpoints] (ServiceMeta httpService) \<lparr>Subsets = []\<rparr>
     = (None, readyEndpoints)
   \<and> IsServiceReady (getterOf [ServiceMeta httpService \<mapsto> readyEndpoints]) httpService = (True, None)
   \<and> getterOf [ServiceMeta httpService \<mapsto> unreadyEndpoints] (ServiceMeta httpService) \<lparr>Subsets = []\<rparr>
     = (None, unreadyEndpoints)
   \<and> IsServiceReady (getterOf [ServiceMeta httpService \<mapsto> unreadyEndpoints]) httpService
     = (False, None)
   \<and> fst (getterOf Map.empty (ServiceMeta httpService) \<lparr>Subsets = []\<rparr>)
     = Some (NewError StatusReasonNotFound ''endpoints prod-es-http not found'')
   \<and> IsServiceReady (getterOf Map.empty) httpService
     = (False, Some (NewError StatusReasonNotFound ''endpoints prod-es-http not found''))"
proof -
  have g1: "getterOf [ServiceMeta httpService \<mapsto> readyEndpoints]
      \<lparr>Namespace = Namespace (ServiceMeta httpService), Name = Name (ServiceMeta httpService)\<rparr>
      \<lparr>Subsets = []\<rparr> = (None, readyEndpoints)"
    and g2: "getterOf [ServiceMeta httpService \<mapsto> unreadyEndpoints]
      \<lparr>Namespace = Namespace (ServiceMeta httpService), Name = Name (ServiceMeta httpService)\<rparr>
      \<lparr>Subsets = []\<rparr> = (None, unreadyEndpoints)"
    and g3: "getterOf Map.empty
      \<lparr>Namespace = Namespace (ServiceMeta httpService), Name = Name (ServiceMeta httpService)\<rparr>
      \<lparr>Subsets = []\<rparr>
      = (Some (NewError StatusReasonNotFound ''endpoints prod-es-http not found''), \<lparr>Subsets = []\<rparr>)"
    by (simp_all add: getterOf_def httpService_def)
  have r: "\<exists>subs \<in> set (Subsets readyEndpoints). Addresses subs \<noteq> []"
    and u: "\<forall>subs \<in> set (Subsets unreadyEndpoints). Addresses subs = []"
    by (simp_all add: readyEndpoints_def unreadyEndpoints_def)
  from service_ready_iff_address[where c="getterOf [ServiceMeta httpService \<mapsto> readyEndpoints]"
      and service=httpService, OF g1] r
  have a: "IsServiceReady (getterOf [ServiceMeta httpService \<mapsto> readyEndpoints]) httpService
      = (True, None)"
    by simp
  from service_ready_iff_address[where c="getterOf [ServiceMeta httpService \<mapsto> unreadyEndpoints]"
      and service=httpService, OF g2] u
  have b: "IsServiceReady (getterOf [ServiceMeta httpService \<mapsto> unreadyEndpoints]) httpService
      = (False, None)"
    by simp
  from service_ready_iff_address[where c="getterOf Map.empty" and service=httpService, OF g3]
  have c: "IsServiceReady (getterOf Map.empty) httpService
      = (False, Some (NewError StatusReasonNotFound ''endpoints prod-es-http not found''))"
    by simp
  have h: "getterOf [ServiceMeta httpService \<mapsto> readyEndpoints] (ServiceMeta httpService)
        \<lparr>Subsets = []\<rparr> = (None, readyEndpoints)"
      "getterOf [ServiceMeta httpService \<mapsto> unreadyEndpoints] (ServiceMeta httpService)
        \<lparr>Subsets = []\<rparr> = (None, unreadyEndpoints)"
      "fst (getterOf Map.empty (ServiceMeta httpService) \<lparr>Subsets = []\<rparr>)
        = Some (NewError StatusReasonNotFound ''endpoints prod-es-http not found'')"
    by (simp_all add: getterOf_def httpService_def)
  from h a b c show ?thesis by (intro conjI)
qed

end
